theory Spec2Isabelle
  imports Main "HOL-Library.Word"
begin

section \<open>Analytics purger (rpc/rpc_analytics_purger.go)\<close>

text \<open>
  Go errors are carried as their message. Calls to the logger write to the process log
  only and are left out, apart from the debug line of \<open>PurgeCache\<close> that reports the
  number of records that failed to decode. Every other effect of a function is an event
  appended to a trace, in the order the source performs it.
\<close>

type_synonym err = string

text \<open>
  An element of the local queue is a Go \<open>interface{}\<close>: either a string, which is what
  \<open>decodeAnalyticsRecord\<close> asserts, or a value of another dynamic type, on which the
  type assertion panics.
\<close>

datatype elem = StrElem string | OtherElem

datatype panic = TypeAssertionPanic | IndexOutOfRangePanic

definition ANALYTICS_KEYNAME :: string where
  "ANALYTICS_KEYNAME = ''tyk-system-analytics''"

text \<open>
  \<open>msgpack.Unmarshal\<close> belongs to an external package: it is a parameter that maps the
  encoded bytes to the record it leaves in \<open>decoded\<close> (starting from the zero record)
  and the error it returns.
\<close>

type_synonym 'r unmarshal = "string \<Rightarrow> 'r \<times> err option"

definition decodeAnalyticsRecord :: "'r unmarshal \<Rightarrow> elem \<Rightarrow> panic + ('r \<times> err option)" where
  "decodeAnalyticsRecord un encoded =
     (case encoded of
        OtherElem \<Rightarrow> Inl TypeAssertionPanic
      | StrElem s \<Rightarrow>
          (case un s of
             (decoded, Some e) \<Rightarrow> Inr (decoded, Some e)
           | (decoded, None) \<Rightarrow> Inr (decoded, None)))"

text \<open>
  The body of the \<open>range\<close> loop of \<open>processAnalyticsValues\<close>: \<open>i\<close> is the index of the
  element at the head of the remaining values, \<open>keys\<close> the slice allocated before the loop
  and \<open>failedRecords\<close> the counter. A slot of \<open>keys\<close> is \<open>None\<close> while it holds the nil
  interface value it was allocated with.
\<close>

fun processAnalyticsValues_loop ::
  "'r unmarshal \<Rightarrow> elem list \<Rightarrow> nat \<Rightarrow> 'r option list \<Rightarrow> nat \<Rightarrow> panic + ('r option list \<times> nat)" where
  "processAnalyticsValues_loop un [] i keys failedRecords = Inr (keys, failedRecords)"
| "processAnalyticsValues_loop un (v # vs) i keys failedRecords =
     (case decodeAnalyticsRecord un v of
        Inl p \<Rightarrow> Inl p
      | Inr (decoded, Some e) \<Rightarrow> processAnalyticsValues_loop un vs (Suc i) keys (Suc failedRecords)
      | Inr (decoded, None) \<Rightarrow>
          processAnalyticsValues_loop un vs (Suc i) (keys[i := Some decoded]) failedRecords)"

definition processAnalyticsValues ::
  "'r unmarshal \<Rightarrow> elem list \<Rightarrow> panic + ('r option list \<times> nat)" where
  "processAnalyticsValues un analyticsValues =
     processAnalyticsValues_loop un analyticsValues 0
       (replicate (length analyticsValues) None) 0"

text \<open>Decimal rendering of an integer, as \<open>%v\<close> prints it.\<close>

fun digits :: "nat \<Rightarrow> string" where
  "digits n =
     (if n < 10 then [char_of (48 + n)]
      else digits (n div 10) @ [char_of (48 + n mod 10)])"

declare digits.simps [simp del]

definition sprint_int :: "int \<Rightarrow> string" where
  "sprint_int i = (if i < 0 then CHR ''-'' # digits (nat (- i)) else digits (nat i))"

definition analyticsKeyName :: "int \<Rightarrow> string" where
  "analyticsKeyName i =
     (if i = - 1 then ANALYTICS_KEYNAME
      else ANALYTICS_KEYNAME @ ''_'' @ sprint_int i)"

datatype event =
    GetAndDeleteSetEv string
  | FuncClientSingletonEv string "string option"
  | EmitErrorEventEv string err
  | DebugCouldNotDecode nat

text \<open>
  The surroundings of one purge cycle: the error of the \<open>Ping\<close> call, the error of the
  \<open>PurgeAnalyticsData\<close> call made for a bucket with a given argument, the msgpack
  decoder and \<open>json.Marshal\<close> on the decoded slice. The test of
  \<open>values.ClientIsConnected()\<close> only writes a log line, in \<open>PurgeCache\<close> as in
  \<open>Connect\<close>.
\<close>

record 'r purge_env =
  ping_error :: "err option"
  purge_error :: "int \<Rightarrow> string \<Rightarrow> err option"
  msgpack_Unmarshal :: "'r unmarshal"
  json_Marshal :: "'r option list \<Rightarrow> err + string"

record purge_state =
  Store :: "string \<Rightarrow> elem list"
  trace :: "event list"

text \<open>
  Modelled from the spec: the local queue store (\<open>storage.Handler\<close>, not part of the
  sources) atomically fetches and removes all currently queued elements of a key; a key
  with nothing queued yields the empty slice.
\<close>

definition GetAndDeleteSet :: "purge_state \<Rightarrow> string \<Rightarrow> elem list \<times> purge_state" where
  "GetAndDeleteSet st k =
     (Store st k,
      st\<lparr>Store := (Store st)(k := []), trace := trace st @ [GetAndDeleteSetEv k]\<rparr>)"

definition emit :: "event \<Rightarrow> purge_state \<Rightarrow> purge_state" where
  "emit ev st = st\<lparr>trace := trace st @ [ev]\<rparr>"

datatype purge_exit = CycleDone | PingFailed | MarshalFailed | Panicked panic

text \<open>The \<open>for i := -1; i < 10; i++\<close> loop of \<open>PurgeCache\<close>, from index \<open>i\<close> on.\<close>

function PurgeCache_loop :: "'r purge_env \<Rightarrow> int \<Rightarrow> purge_state \<Rightarrow> purge_exit \<times> purge_state" where
  "PurgeCache_loop env i st =
     (if i < 10 then
        (case GetAndDeleteSet st (analyticsKeyName i) of
           (analyticsValues, st1) \<Rightarrow>
             if length analyticsValues = 0 then PurgeCache_loop env (i + 1) st1
             else
               (case processAnalyticsValues (msgpack_Unmarshal env) analyticsValues of
                  Inl p \<Rightarrow> (Panicked p, st1)
                | Inr (keys, failedRecords) \<Rightarrow>
                    (case json_Marshal env keys of
                       Inl e \<Rightarrow> (MarshalFailed, emit (DebugCouldNotDecode failedRecords) st1)
                     | Inr data \<Rightarrow>
                         (case purge_error env i data of
                            Some e \<Rightarrow>
                              PurgeCache_loop env (i + 1)
                                (emit (EmitErrorEventEv ''PurgeAnalyticsData'' e)
                                  (emit (FuncClientSingletonEv ''PurgeAnalyticsData'' (Some data))
                                    (emit (DebugCouldNotDecode failedRecords) st1)))
                          | None \<Rightarrow>
                              PurgeCache_loop env (i + 1)
                                (emit (FuncClientSingletonEv ''PurgeAnalyticsData'' (Some data))
                                  (emit (DebugCouldNotDecode failedRecords) st1))))))
      else (CycleDone, st))"
  by pat_completeness auto
termination
  by (relation "measure (\<lambda>(env, i, st). nat (10 - i))") auto

declare PurgeCache_loop.simps [simp del]

definition PurgeCache :: "'r purge_env \<Rightarrow> purge_state \<Rightarrow> purge_exit \<times> purge_state" where
  "PurgeCache env st =
     (let st0 = emit (FuncClientSingletonEv ''Ping'' None) st in
      case ping_error env of
        Some e \<Rightarrow> (PingFailed, st0)
      | None \<Rightarrow> PurgeCache_loop env (- 1) st0)"

text \<open>
  What \<open>processAnalyticsValues\<close> leaves in the slot of a string element, and whether the
  element counts as failed; the lemmas below state the result of the loop with them.
\<close>

definition decoded_slot :: "'r unmarshal \<Rightarrow> string \<Rightarrow> 'r option" where
  "decoded_slot un s = (case un s of (d, None) \<Rightarrow> Some d | (d, Some e) \<Rightarrow> None)"

definition decode_fails :: "'r unmarshal \<Rightarrow> string \<Rightarrow> bool" where
  "decode_fails un s = (snd (un s) \<noteq> None)"

text \<open>
  Between two states of a cycle, no bucket with an index above \<open>m\<close> was read or drained:
  the trace only grew, the queues of those buckets are as they were, and no
  \<open>GetAndDeleteSet\<close> on their keys is among the new events.
\<close>

definition later_buckets_untouched :: "int \<Rightarrow> purge_state \<Rightarrow> purge_state \<Rightarrow> bool" where
  "later_buckets_untouched m st st' =
     (take (length (trace st)) (trace st') = trace st \<and>
      (\<forall>j \<in> {m <..< 10}.
         Store st' (analyticsKeyName j) = Store st (analyticsKeyName j) \<and>
         GetAndDeleteSetEv (analyticsKeyName j) \<notin> set (drop (length (trace st)) (trace st'))))"

subsection \<open>Registration of the stub handlers\<close>

text \<open>
  The package globals \<open>addedFuncs\<close> (a \<open>map[string]bool\<close>, where a missing key reads
  false) and \<open>dispatcher\<close> are declared outside the sources. A registered handler is the
  closure given to \<open>AddFunc\<close>: a function without arguments that returns a bool, or a
  function from the data string to an error.
\<close>

datatype handler = BoolFunc bool | ErrorFunc "string \<Rightarrow> err option"

record rpc_globals =
  addedFuncs :: "string \<Rightarrow> bool"
  dispatcher :: "(string \<times> handler) list"

text \<open>
  Modelled from the spec: the dispatcher (an external type) records each registration of
  a remote-callable handler under its name, in the order of the calls.
\<close>

definition AddFunc :: "string \<Rightarrow> handler \<Rightarrow> rpc_globals \<Rightarrow> rpc_globals" where
  "AddFunc funcName f g = g\<lparr>dispatcher := dispatcher g @ [(funcName, f)]\<rparr>"

definition Connect :: "rpc_globals \<Rightarrow> rpc_globals" where
  "Connect g =
     (let g1 = (if \<not> addedFuncs g ''Ping''
                then (AddFunc ''Ping'' (BoolFunc False) g)
                       \<lparr>addedFuncs := (addedFuncs g)(''Ping'' := True)\<rparr>
                else g);
          g2 = (if \<not> addedFuncs g1 ''PurgeAnalyticsData''
                then (AddFunc ''PurgeAnalyticsData'' (ErrorFunc (\<lambda>data. None)) g1)
                       \<lparr>addedFuncs := (addedFuncs g1)(''PurgeAnalyticsData'' := True)\<rparr>
                else g1)
      in g2)"

definition registrations :: "rpc_globals \<Rightarrow> string \<Rightarrow> nat" where
  "registrations g funcName = length (filter (\<lambda>(n, f). n = funcName) (dispatcher g))"

text \<open>
  What the guard of \<open>Connect\<close> relies on: a name is registered at most once, and a
  registered name is marked in \<open>addedFuncs\<close>.
\<close>

definition guarded :: "rpc_globals \<Rightarrow> string \<Rightarrow> bool" where
  "guarded g funcName =
     (registrations g funcName = 0 \<or> registrations g funcName = 1 \<and> addedFuncs g funcName)"

definition process_start :: rpc_globals where
  "process_start = \<lparr>addedFuncs = (\<lambda>n. False), dispatcher = []\<rparr>"

section \<open>Distributed rate limiter and configuration sync (gateway/distributed_rate_limiter.go)\<close>

text \<open>
  \<open>config.Config\<close>, the gateway's host details and the DRL manager are declared outside
  the sources: the records hold the fields the functions read, and \<open>OtherSettings\<close>
  stands for the rest of a configuration. \<open>GetNodeID\<close> and \<open>GetConfig\<close> are the values
  the methods of those names return.
\<close>

record Config =
  AllowRemoteConfig :: bool
  OriginalPath :: string
  DBAppConfOptions_Tags :: "string list"
  DRLNotificationFrequency :: int
  OtherSettings :: "(string \<times> string) list"

record HostDetails =
  Hostname :: string
  PID :: int

record DRL =
  Ready :: bool
  ThisServerID :: string

record Gateway =
  hostDetails :: HostDetails
  GetNodeID :: string
  GetConfig :: Config
  DRLManager :: "DRL option"

record Server =
  HostName :: string
  ID :: string
  LoadPerSec :: "64 word"
  TagHash :: string

record ConfigPayload =
  Configuration :: Config
  ForHostname :: string
  ForNodeID :: string
  TimeStamp :: "64 word"

record GetConfigPayload =
  FromHostname :: string
  FromNodeID :: string
  TimeStamp :: "64 word"

record 'v ReturnConfigPayload =
  FromHostname :: string
  FromNodeID :: string
  Configuration :: "string \<rightharpoonup> 'v"
  TimeStamp :: "64 word"

datatype command = NoticeGatewayDRLNotification | NoticeGatewayConfigResponse

text \<open>
  The effects on the outside: a call of \<open>ioutil.WriteFile\<close> with its path, data and
  result, a \<open>SIGUSR2\<close> sent with \<open>syscall.Kill\<close> to a process id with its result, and a
  notification handed to \<open>MainNotifier.Notify\<close>.
\<close>

datatype effect =
    WriteFileEff string string "err option"
  | KillEff int "err option"
  | NotifyEff command string

record world =
  files :: "string \<rightharpoonup> string"
  effects :: "effect list"

text \<open>
  The library calls and globals the functions use, as parameters: \<open>confPaths\<close>,
  \<open>config.Load\<close> into a zero configuration, \<open>json.Unmarshal\<close> of a payload over a
  prepared structure, \<open>json.MarshalIndent\<close> and \<open>json.Marshal\<close>, the error of a file
  write, the clock, the error of \<open>syscall.Kill\<close>, the JSON decoder of a configuration
  file and \<open>GlobalRate.Rate()\<close>.
\<close>

record 'v sync_env =
  confPaths :: "string list"
  config_Load :: "(string \<rightharpoonup> string) \<Rightarrow> string list \<Rightarrow> Config"
  Unmarshal_ConfigPayload :: "string \<Rightarrow> ConfigPayload \<Rightarrow> err + ConfigPayload"
  Unmarshal_GetConfigPayload :: "string \<Rightarrow> err + GetConfigPayload"
  MarshalIndent :: "Config \<Rightarrow> err + string"
  WriteFile_error :: "(string \<rightharpoonup> string) \<Rightarrow> string \<Rightarrow> string \<Rightarrow> err option"
  Now_Format :: string
  Now_Unix :: "64 word"
  Kill_error :: "int \<Rightarrow> err option"
  Decode_microConfig :: "string \<Rightarrow> err + (string \<rightharpoonup> 'v)"
  Marshal_ReturnConfigPayload :: "'v ReturnConfigPayload \<Rightarrow> err + string"
  Marshal_Server :: "Server \<Rightarrow> err + string"
  GlobalRate_Rate :: "64 word"

definition getTagHash :: "Gateway \<Rightarrow> string" where
  "getTagHash gw = foldl (\<lambda>th tag. th @ tag) [] (DBAppConfOptions_Tags (GetConfig gw))"

definition NotifyCurrentServerStatus :: "'v sync_env \<Rightarrow> Gateway \<Rightarrow> world \<Rightarrow> world" where
  "NotifyCurrentServerStatus env gw w =
     (case DRLManager gw of
        None \<Rightarrow> w
      | Some m \<Rightarrow>
          if \<not> Ready m then w
          else
            let rate = GlobalRate_Rate env;
                rate = (if rate = 0 then 1 else rate);
                server = \<lparr>HostName = Hostname (hostDetails gw), ID = GetNodeID gw,
                          LoadPerSec = rate, TagHash = getTagHash gw\<rparr>
            in case Marshal_Server env server of
                 Inl e \<Rightarrow> w
               | Inr asJson \<Rightarrow>
                   w\<lparr>effects := effects w @ [NotifyEff NoticeGatewayDRLNotification asJson]\<rparr>)"

text \<open>
  \<open>ioutil.WriteFile\<close> is a library call: a write that succeeds replaces the contents of
  the path, a write that returns an error leaves the files as they were.
\<close>

definition WriteFile :: "'v sync_env \<Rightarrow> string \<Rightarrow> string \<Rightarrow> world \<Rightarrow> err option \<times> world" where
  "WriteFile env fName data w =
     (case WriteFile_error env (files w) fName data of
        Some e \<Rightarrow> (Some e, w\<lparr>effects := effects w @ [WriteFileEff fName data (Some e)]\<rparr>)
      | None \<Rightarrow>
          (None, w\<lparr>files := (files w)(fName \<mapsto> data),
                    effects := effects w @ [WriteFileEff fName data None]\<rparr>))"

definition backupConfiguration :: "'v sync_env \<Rightarrow> Gateway \<Rightarrow> world \<Rightarrow> err option \<times> world" where
  "backupConfiguration env gw w =
     (case MarshalIndent env (GetConfig gw) of
        Inl e \<Rightarrow> (Some e, w)
      | Inr oldConfig \<Rightarrow>
          let asStr = Now_Format env;
              fName = asStr @ ''.tyk.conf''
          in WriteFile env fName oldConfig w)"

definition writeNewConfiguration ::
  "'v sync_env \<Rightarrow> ConfigPayload \<Rightarrow> world \<Rightarrow> panic + (err option \<times> world)" where
  "writeNewConfiguration env payload w =
     (case MarshalIndent env (ConfigPayload.Configuration payload) of
        Inl e \<Rightarrow> Inr (Some e, w)
      | Inr newConfig \<Rightarrow>
          (case confPaths env of
             [] \<Rightarrow> Inl IndexOutOfRangePanic
           | p # ps \<Rightarrow> Inr (WriteFile env p newConfig w)))"

datatype apply_exit =
    DecodeFailed
  | NoMatch
  | RemoteConfigNotAllowed
  | BackupFailed
  | WriteFailed
  | NoPID
  | ReloadFailed
  | ReloadSignalled
  | ApplyPanicked panic

definition handleNewConfiguration ::
  "'v sync_env \<Rightarrow> Gateway \<Rightarrow> string \<Rightarrow> world \<Rightarrow> apply_exit \<times> world" where
  "handleNewConfiguration env gw payload w =
     (let configPayload0 =
            \<lparr>ConfigPayload.Configuration = config_Load env (files w) (confPaths env),
             ForHostname = [], ForNodeID = [], TimeStamp = 0\<rparr>
      in case Unmarshal_ConfigPayload env payload configPayload0 of
           Inl e \<Rightarrow> (DecodeFailed, w)
         | Inr configPayload \<Rightarrow>
             if ForHostname configPayload \<noteq> Hostname (hostDetails gw) \<and>
                ForNodeID configPayload \<noteq> GetNodeID gw
             then (NoMatch, w)
             else if \<not> AllowRemoteConfig (GetConfig gw) then (RemoteConfigNotAllowed, w)
             else
               (case backupConfiguration env gw w of
                  (Some e, w1) \<Rightarrow> (BackupFailed, w1)
                | (None, w1) \<Rightarrow>
                    (case writeNewConfiguration env configPayload w1 of
                       Inl p \<Rightarrow> (ApplyPanicked p, w1)
                     | Inr (Some e, w2) \<Rightarrow> (WriteFailed, w2)
                     | Inr (None, w2) \<Rightarrow>
                         let myPID = PID (hostDetails gw)
                         in if myPID = 0 then (NoPID, w2)
                            else
                              (case Kill_error env myPID of
                                 Some e \<Rightarrow>
                                   (ReloadFailed,
                                    w2\<lparr>effects := effects w2 @ [KillEff myPID (Some e)]\<rparr>)
                               | None \<Rightarrow>
                                   (ReloadSignalled,
                                    w2\<lparr>effects := effects w2 @ [KillEff myPID None]\<rparr>)))))"

definition sanitzeFields :: "string list" where
  "sanitzeFields = [''secret'', ''node_secret'', ''storage'', ''slave_options'', ''auth_override'']"

definition sanitizeConfig :: "(string \<rightharpoonup> 'v) \<Rightarrow> (string \<rightharpoonup> 'v)" where
  "sanitizeConfig mc = foldl (\<lambda>mc field_name. mc(field_name := None)) mc sanitzeFields"

text \<open>\<open>os.Open\<close> fails on a path that holds no file.\<close>

definition getExistingConfig ::
  "'v sync_env \<Rightarrow> Gateway \<Rightarrow> world \<Rightarrow> err + (string \<rightharpoonup> 'v)" where
  "getExistingConfig env gw w =
     (case files w (OriginalPath (GetConfig gw)) of
        None \<Rightarrow> Inl ''open: no such file or directory''
      | Some f \<Rightarrow>
          (case Decode_microConfig env f of
             Inl e \<Rightarrow> Inl e
           | Inr microConfig \<Rightarrow> Inr (sanitizeConfig microConfig)))"

datatype respond_exit =
    RequestDecodeFailed
  | RequestNoMatch
  | ExistingConfigFailed
  | ResponseMarshalFailed
  | Responded

definition handleSendMiniConfig ::
  "'v sync_env \<Rightarrow> Gateway \<Rightarrow> string \<Rightarrow> world \<Rightarrow> respond_exit \<times> world" where
  "handleSendMiniConfig env gw payload w =
     (case Unmarshal_GetConfigPayload env payload of
        Inl e \<Rightarrow> (RequestDecodeFailed, w)
      | Inr configPayload \<Rightarrow>
          if GetConfigPayload.FromHostname configPayload \<noteq> Hostname (hostDetails gw) \<and>
             GetConfigPayload.FromNodeID configPayload \<noteq> GetNodeID gw
          then (RequestNoMatch, w)
          else
            (case getExistingConfig env gw w of
               Inl e \<Rightarrow> (ExistingConfigFailed, w)
             | Inr config \<Rightarrow>
                 let returnPayload =
                       \<lparr>ReturnConfigPayload.FromHostname = Hostname (hostDetails gw),
                        FromNodeID = GetNodeID gw,
                        Configuration = config,
                        TimeStamp = Now_Unix env\<rparr>
                 in case Marshal_ReturnConfigPayload env returnPayload of
                      Inl e \<Rightarrow> (ResponseMarshalFailed, w)
                    | Inr payloadAsJSON \<Rightarrow>
                        (Responded,
                         w\<lparr>effects := effects w @
                              [NotifyEff NoticeGatewayConfigResponse payloadAsJSON]\<rparr>)))"

text \<open>
  Two names for the proofs: the payload as \<open>handleNewConfiguration\<close> decodes it, over
  the configuration loaded from disk, and the part of \<open>handleNewConfiguration\<close> that
  follows a backup that succeeded.
\<close>

definition decoded_push :: "'v sync_env \<Rightarrow> string \<Rightarrow> world \<Rightarrow> err + ConfigPayload" where
  "decoded_push env payload w =
     Unmarshal_ConfigPayload env payload
       \<lparr>ConfigPayload.Configuration = config_Load env (files w) (confPaths env),
        ForHostname = [], ForNodeID = [], TimeStamp = 0\<rparr>"

definition write_and_reload ::
  "'v sync_env \<Rightarrow> Gateway \<Rightarrow> ConfigPayload \<Rightarrow> world \<Rightarrow> apply_exit \<times> world" where
  "write_and_reload env gw configPayload w1 =
     (case writeNewConfiguration env configPayload w1 of
        Inl p \<Rightarrow> (ApplyPanicked p, w1)
      | Inr (Some e, w2) \<Rightarrow> (WriteFailed, w2)
      | Inr (None, w2) \<Rightarrow>
          if PID (hostDetails gw) = 0 then (NoPID, w2)
          else
            (case Kill_error env (PID (hostDetails gw)) of
               Some e \<Rightarrow>
                 (ReloadFailed,
                  w2\<lparr>effects := effects w2 @ [KillEff (PID (hostDetails gw)) (Some e)]\<rparr>)
             | None \<Rightarrow>
                 (ReloadSignalled,
                  w2\<lparr>effects := effects w2 @ [KillEff (PID (hostDetails gw)) None]\<rparr>)))"

section \<open>Sample inputs\<close>

text \<open>
  Concrete surroundings and states on which the theorems below are evaluated: a decoder
  that rejects the element \<open>bad\<close>, a marshaller that fails on the record \<open>NaN\<close>, a
  remote collector that times out, and a queue store with three filled buckets.
\<close>

definition sample_unmarshal :: "string unmarshal" where
  "sample_unmarshal s =
     (if s = ''bad'' then ([], Some ''msgpack: invalid code'') else (s, None))"

definition sample_marshal :: "string option list \<Rightarrow> err + string" where
  "sample_marshal keys =
     (if Some ''NaN'' \<in> set keys then Inl ''json: unsupported value: NaN''
      else Inr (concat (map (\<lambda>k. case k of None \<Rightarrow> ''null;'' | Some r \<Rightarrow> r @ '';'') keys)))"

definition sample_purge_env :: "string purge_env" where
  "sample_purge_env =
     \<lparr>ping_error = None, purge_error = (\<lambda>i data. Some ''rpc: timeout''),
      msgpack_Unmarshal = sample_unmarshal, json_Marshal = sample_marshal\<rparr>"

definition sample_records :: "string list" where
  "sample_records = [''r1'', ''r2'', ''bad'', ''r3'']"

definition sample_purge_state :: purge_state where
  "sample_purge_state =
     \<lparr>Store = (\<lambda>k. [])(''tyk-system-analytics'' := map StrElem sample_records,
                       ''tyk-system-analytics_2'' := [StrElem ''NaN''],
                       ''tyk-system-analytics_5'' := [StrElem ''r4'']),
      trace = []\<rparr>"

text \<open>JSON values of a configuration file, for the worked example of \<open>sanitizeConfig\<close>.\<close>

datatype json = JString string | JNumber int | JObject "(string \<times> json) list"

text \<open>
  A gateway on host \<open>h1\<close> with no recorded process id, a gateway on host \<open>h2\<close> that is
  not registered yet (its node id is empty) and a registered gateway on host \<open>h2\<close>.
\<close>

definition sample_config :: Config where
  "sample_config =
     \<lparr>AllowRemoteConfig = True, OriginalPath = ''tyk.conf'',
      DBAppConfOptions_Tags = [''eu'', ''edge''], DRLNotificationFrequency = 2,
      OtherSettings = [(''listen_port'', ''8080'')]\<rparr>"

definition sample_gateway :: Gateway where
  "sample_gateway =
     \<lparr>hostDetails = \<lparr>Hostname = ''h1'', PID = 0\<rparr>, GetNodeID = ''node-7'',
      GetConfig = sample_config,
      DRLManager = Some \<lparr>Ready = True, ThisServerID = ''node-7|h1''\<rparr>\<rparr>"

definition unregistered_gateway :: Gateway where
  "unregistered_gateway =
     \<lparr>hostDetails = \<lparr>Hostname = ''h2'', PID = 4711\<rparr>, GetNodeID = [],
      GetConfig = sample_config, DRLManager = None\<rparr>"

definition other_gateway :: Gateway where
  "other_gateway =
     \<lparr>hostDetails = \<lparr>Hostname = ''h2'', PID = 4711\<rparr>, GetNodeID = ''node-9'',
      GetConfig = sample_config, DRLManager = None\<rparr>"

text \<open>
  The sample decoder of a pushed configuration reads the payload text as the target
  hostname, leaves the target node id empty and sets the listen port on top of the
  configuration loaded from disk; the decoder of a pull request does the same with the
  requester. Every file write succeeds, except under \<open>readonly_sync_env\<close>, where every
  write fails.
\<close>

definition sample_sync_env :: "json sync_env" where
  "sample_sync_env =
     \<lparr>confPaths = [''tyk.conf''],
      config_Load = (\<lambda>fs paths. sample_config),
      Unmarshal_ConfigPayload =
        (\<lambda>payload p.
           if payload = [] then Inl ''unexpected end of JSON input''
           else Inr (p\<lparr>ConfigPayload.Configuration :=
                         (ConfigPayload.Configuration p)\<lparr>OtherSettings := [(''listen_port'', ''9090'')]\<rparr>,
                       ForHostname := payload\<rparr>)),
      Unmarshal_GetConfigPayload =
        (\<lambda>payload.
           if payload = [] then Inl ''unexpected end of JSON input''
           else Inr \<lparr>GetConfigPayload.FromHostname = payload, FromNodeID = [], TimeStamp = 0\<rparr>),
      MarshalIndent = (\<lambda>c. Inr (concat (map (\<lambda>(k, v). k @ ''='' @ v @ '';'') (OtherSettings c)))),
      WriteFile_error = (\<lambda>fs path data. None),
      Now_Format = ''Sun-Nov- 1-03-23-00-2026'',
      Now_Unix = 1793503380,
      Kill_error = (\<lambda>pid. None),
      Decode_microConfig =
        (\<lambda>f. Inr [''secret'' \<mapsto> JString ''x'', ''storage'' \<mapsto> JObject [],
                   ''port'' \<mapsto> JNumber 8080]),
      Marshal_ReturnConfigPayload =
        (\<lambda>r. Inr (ReturnConfigPayload.FromNodeID r @ ''|'' @ ReturnConfigPayload.FromHostname r)),
      Marshal_Server =
        (\<lambda>s. Inr (ID s @ ''|'' @ HostName s @ ''|'' @ digits (unat (LoadPerSec s)) @ ''|'' @
                   TagHash s)),
      GlobalRate_Rate = 0\<rparr>"

definition sample_world :: world where
  "sample_world = \<lparr>files = [''tyk.conf'' \<mapsto> ''listen_port=8080;''], effects = []\<rparr>"

definition readonly_sync_env :: "json sync_env" where
  "readonly_sync_env =
     sample_sync_env\<lparr>WriteFile_error := (\<lambda>fs path data. Some ''read-only file system'')\<rparr>"

section \<open>Properties of the analytics purger\<close>

subsection \<open>Decoding a bucket\<close>

lemma loop_step_decoded:
  "un s = (d, None) \<Longrightarrow>
   processAnalyticsValues_loop un (StrElem s # vs) i keys f =
     processAnalyticsValues_loop un vs (Suc i) (keys[i := Some d]) f"
  by (simp add: decodeAnalyticsRecord_def)

lemma loop_step_failed:
  "un s = (d, Some e) \<Longrightarrow>
   processAnalyticsValues_loop un (StrElem s # vs) i keys f =
     processAnalyticsValues_loop un vs (Suc i) keys (Suc f)"
  by (simp add: decodeAnalyticsRecord_def)

lemma processAnalyticsValues_loop_strings:
  "processAnalyticsValues_loop un (map StrElem ss) (length done)
       (done @ replicate (length ss) None) f =
     Inr (done @ map (decoded_slot un) ss, f + length (filter (decode_fails un) ss))"
proof (induction ss arbitrary: "done" f)
  case Nil
  show ?case by simp
next
  case (Cons s ss)
  obtain d r where u: "un s = (d, r)" by (cases "un s")
  show ?case
  proof (cases r)
    case None
    have slot: "decoded_slot un s = Some d" and ok: "\<not> decode_fails un s"
      using u None by (simp_all add: decoded_slot_def decode_fails_def)
    have upd: "(done @ None # replicate (length ss) None)[length done := Some d] =
      (done @ [Some d]) @ replicate (length ss) None"
      by (simp add: list_update_append)
    have "processAnalyticsValues_loop un (map StrElem (s # ss)) (length done)
       (done @ replicate (length (s # ss)) None) f =
       processAnalyticsValues_loop un (map StrElem ss) (length (done @ [Some d]))
         ((done @ [Some d]) @ replicate (length ss) None) f"
      using u None upd by (simp add: loop_step_decoded del: processAnalyticsValues_loop.simps)
    also have "\<dots> = Inr ((done @ [Some d]) @ map (decoded_slot un) ss,
        f + length (filter (decode_fails un) ss))"
      by (rule Cons.IH)
    finally show ?thesis using slot ok by simp
  next
    case (Some e)
    have slot: "decoded_slot un s = None" and bad: "decode_fails un s"
      using u Some by (simp_all add: decoded_slot_def decode_fails_def)
    have "processAnalyticsValues_loop un (map StrElem (s # ss)) (length done)
       (done @ replicate (length (s # ss)) None) f =
       processAnalyticsValues_loop un (map StrElem ss) (length (done @ [None]))
         ((done @ [None]) @ replicate (length ss) None) (Suc f)"
      using u Some by (simp add: loop_step_failed del: processAnalyticsValues_loop.simps)
    also have "\<dots> = Inr ((done @ [None]) @ map (decoded_slot un) ss,
        Suc f + length (filter (decode_fails un) ss))"
      by (rule Cons.IH)
    finally show ?thesis using slot bad by simp
  qed
qed

lemma processAnalyticsValues_strings:
  "processAnalyticsValues un (map StrElem ss) =
     Inr (map (decoded_slot un) ss, length (filter (decode_fails un) ss))"
  using processAnalyticsValues_loop_strings [of un ss "[]" 0]
  by (simp add: processAnalyticsValues_def)

lemma decoded_slot_None: "(decoded_slot un s = None) = decode_fails un s"
  by (cases "un s") (auto simp: decoded_slot_def decode_fails_def split: option.splits)

lemma length_filter_split: "length (filter P xs) + length (filter (\<lambda>x. \<not> P x) xs) = length xs"
  by (induction xs) auto

lemma PurgeCache_loop_step:
  assumes "i < 10" and "Store st (analyticsKeyName i) = vs" and "vs \<noteq> []"
    and "processAnalyticsValues (msgpack_Unmarshal env) vs = Inr (keys, failed)"
    and "json_Marshal env keys = Inr data"
  shows "PurgeCache_loop env i st =
     PurgeCache_loop env (i + 1)
       (st\<lparr>Store := (Store st)(analyticsKeyName i := []),
           trace := trace st @
             [GetAndDeleteSetEv (analyticsKeyName i), DebugCouldNotDecode failed,
              FuncClientSingletonEv ''PurgeAnalyticsData'' (Some data)] @
             (case purge_error env i data of None \<Rightarrow> []
              | Some e \<Rightarrow> [EmitErrorEventEv ''PurgeAnalyticsData'' e])\<rparr>)"
  using assms
  by (subst PurgeCache_loop.simps) (simp add: GetAndDeleteSet_def emit_def split: option.splits)

subsection \<open>Bucket keys and the steps of a cycle\<close>

lemma digits_single: "n < 10 \<Longrightarrow> digits n = [char_of (48 + n)]"
  by (subst digits.simps) simp

lemma analyticsKeyName_digit:
  "0 \<le> i \<Longrightarrow> i < 10 \<Longrightarrow>
   analyticsKeyName i = ANALYTICS_KEYNAME @ ''_'' @ [char_of (48 + nat i)]"
  by (simp add: analyticsKeyName_def sprint_int_def digits_single)

lemma char_of_inj_small:
  assumes "char_of (48 + a :: nat) = (char_of (48 + b :: nat) :: char)" "a < 10" "b < 10"
  shows "a = b"
proof -
  have "(of_char (char_of (48 + a) :: char) :: nat) = of_char (char_of (48 + b) :: char)"
    using assms(1) by simp
  then have "(48 + a) mod 256 = (48 + b) mod 256" by simp
  then show ?thesis using assms(2,3) by simp
qed

lemma analyticsKeyName_inj:
  assumes "- 1 \<le> i" "i < 10" "- 1 \<le> j" "j < 10" "analyticsKeyName i = analyticsKeyName j"
  shows "i = j"
proof (cases "i = - 1")
  case True
  show ?thesis
  proof (cases "j = - 1")
    case True
    with \<open>i = - 1\<close> show ?thesis by simp
  next
    case False
    then have "0 \<le> j" using assms(3) by simp
    from analyticsKeyName_digit [OF this assms(4)] assms(5) True
    show ?thesis by (simp add: analyticsKeyName_def)
  qed
next
  case False
  then have i0: "0 \<le> i" using assms(1) by simp
  show ?thesis
  proof (cases "j = - 1")
    case True
    from analyticsKeyName_digit [OF i0 assms(2)] assms(5) True
    show ?thesis by (simp add: analyticsKeyName_def)
  next
    case False
    then have j0: "0 \<le> j" using assms(3) by simp
    from analyticsKeyName_digit [OF i0 assms(2)] analyticsKeyName_digit [OF j0 assms(4)] assms(5)
    have "char_of (48 + nat i) = (char_of (48 + nat j) :: char)" by simp
    then have "nat i = nat j"
      using assms(2,4) i0 j0 by (intro char_of_inj_small) simp_all
    then show ?thesis using i0 j0 by simp
  qed
qed

lemma PurgeCache_loop_empty:
  assumes "i < 10" and "Store st (analyticsKeyName i) = []"
  shows "PurgeCache_loop env i st =
     PurgeCache_loop env (i + 1)
       (st\<lparr>Store := (Store st)(analyticsKeyName i := []),
           trace := trace st @ [GetAndDeleteSetEv (analyticsKeyName i)]\<rparr>)"
  using assms
  by (subst PurgeCache_loop.simps) (simp add: GetAndDeleteSet_def)

lemma PurgeCache_loop_panic:
  assumes "i < 10" and "Store st (analyticsKeyName i) = vs" and "vs \<noteq> []"
    and "processAnalyticsValues (msgpack_Unmarshal env) vs = Inl p"
  shows "PurgeCache_loop env i st =
     (Panicked p,
      st\<lparr>Store := (Store st)(analyticsKeyName i := []),
         trace := trace st @ [GetAndDeleteSetEv (analyticsKeyName i)]\<rparr>)"
  using assms
  by (subst PurgeCache_loop.simps) (simp add: GetAndDeleteSet_def)

lemma PurgeCache_loop_marshal_failed:
  assumes "i < 10" and "Store st (analyticsKeyName i) = vs" and "vs \<noteq> []"
    and "processAnalyticsValues (msgpack_Unmarshal env) vs = Inr (keys, failed)"
    and "json_Marshal env keys = Inl e"
  shows "PurgeCache_loop env i st =
     (MarshalFailed,
      st\<lparr>Store := (Store st)(analyticsKeyName i := []),
         trace := trace st @
           [GetAndDeleteSetEv (analyticsKeyName i), DebugCouldNotDecode failed]\<rparr>)"
  using assms
  by (subst PurgeCache_loop.simps) (simp add: GetAndDeleteSet_def emit_def)

lemma PurgeCache_loop_done: "\<not> i < 10 \<Longrightarrow> PurgeCache_loop env i st = (CycleDone, st)"
  by (subst PurgeCache_loop.simps) simp

lemma untouched_bucket_step:
  assumes "- 1 \<le> i" "i \<le> m" "m < 10"
    and "set evs \<subseteq> {GetAndDeleteSetEv (analyticsKeyName i)} \<union> range DebugCouldNotDecode
            \<union> range (\<lambda>(a, b). FuncClientSingletonEv a b) \<union> range (\<lambda>(a, b). EmitErrorEventEv a b)"
  shows "later_buckets_untouched m st
     (st\<lparr>Store := (Store st)(analyticsKeyName i := []), trace := trace st @ evs\<rparr>)"
proof -
  have "analyticsKeyName j \<noteq> analyticsKeyName i" if "m < j" "j < 10" for j
    using analyticsKeyName_inj [of j i] that assms(1-3) by auto
  then show ?thesis
    using assms(4) by (auto simp: later_buckets_untouched_def)
qed

lemma later_buckets_untouched_trans:
  assumes "later_buckets_untouched m st st1" "later_buckets_untouched m st1 st2"
  shows "later_buckets_untouched m st st2"
proof -
  from assms(1) have p1: "take (length (trace st)) (trace st1) = trace st"
    by (simp add: later_buckets_untouched_def)
  from assms(2) have p2: "take (length (trace st1)) (trace st2) = trace st1"
    by (simp add: later_buckets_untouched_def)
  obtain e1 where e1: "trace st1 = trace st @ e1"
    using p1 by (metis append_take_drop_id)
  obtain e2 where e2: "trace st2 = trace st1 @ e2"
    using p2 by (metis append_take_drop_id)
  show ?thesis
    using assms e1 e2 by (auto simp: later_buckets_untouched_def)
qed

lemma bucket_events_subset:
  "set ([GetAndDeleteSetEv k, DebugCouldNotDecode f, FuncClientSingletonEv a b] @
      (case r of None \<Rightarrow> [] | Some e \<Rightarrow> [EmitErrorEventEv c e]))
    \<subseteq> {GetAndDeleteSetEv k} \<union> range DebugCouldNotDecode
            \<union> range (\<lambda>(a, b). FuncClientSingletonEv a b) \<union> range (\<lambda>(a, b). EmitErrorEventEv a b)"
  by (cases r) auto

lemma marshal_failure_stops_cycle:
  assumes "- 1 \<le> i" "i \<le> m" "m < 10"
    and "Store st (analyticsKeyName m) = vs" "vs \<noteq> []"
    and "processAnalyticsValues (msgpack_Unmarshal env) vs = Inr (keys, failed)"
    and "json_Marshal env keys = Inl e"
  shows "later_buckets_untouched m st (snd (PurgeCache_loop env i st)) \<and>
         fst (PurgeCache_loop env i st) \<noteq> CycleDone"
  using assms
proof (induction "nat (m - i)" arbitrary: i st)
  case 0
  then have im: "i = m" by simp
  have "PurgeCache_loop env m st =
     (MarshalFailed,
      st\<lparr>Store := (Store st)(analyticsKeyName m := []),
         trace := trace st @
           [GetAndDeleteSetEv (analyticsKeyName m), DebugCouldNotDecode failed]\<rparr>)"
    using "0.prems" by (intro PurgeCache_loop_marshal_failed) auto
  moreover have "later_buckets_untouched m st
     (st\<lparr>Store := (Store st)(analyticsKeyName m := []),
         trace := trace st @
           [GetAndDeleteSetEv (analyticsKeyName m), DebugCouldNotDecode failed]\<rparr>)"
    using "0.prems" im by (intro untouched_bucket_step) auto
  ultimately show ?case using im by simp
next
  case (Suc k)
  then have lt: "i < m" and i10: "i < 10" by simp_all
  have k': "k = nat (m - (i + 1))" using Suc.hyps(2) by simp
  have ne: "analyticsKeyName m \<noteq> analyticsKeyName i"
    using analyticsKeyName_inj [of m i] lt Suc.prems by auto
  let ?k = "analyticsKeyName i"
  have step: "later_buckets_untouched m st (snd (PurgeCache_loop env i st)) \<and>
         fst (PurgeCache_loop env i st) \<noteq> CycleDone"
    if eq: "PurgeCache_loop env i st = PurgeCache_loop env (i + 1)
          (st\<lparr>Store := (Store st)(?k := []), trace := trace st @ evs\<rparr>)"
      and evs: "set evs \<subseteq> {GetAndDeleteSetEv ?k} \<union> range DebugCouldNotDecode
            \<union> range (\<lambda>(a, b). FuncClientSingletonEv a b) \<union> range (\<lambda>(a, b). EmitErrorEventEv a b)"
    for evs
  proof -
    let ?st1 = "st\<lparr>Store := (Store st)(?k := []), trace := trace st @ evs\<rparr>"
    have u1: "later_buckets_untouched m st ?st1"
      using Suc.prems lt evs by (intro untouched_bucket_step) auto
    have "Store ?st1 (analyticsKeyName m) = vs"
      using ne Suc.prems by simp
    then have ih: "later_buckets_untouched m ?st1 (snd (PurgeCache_loop env (i + 1) ?st1)) \<and>
         fst (PurgeCache_loop env (i + 1) ?st1) \<noteq> CycleDone"
      using Suc.prems lt by (intro Suc.hyps(1) [OF k']) auto
    show ?thesis
      using later_buckets_untouched_trans [OF u1 conjunct1 [OF ih]] ih eq by simp
  qed
  have stop: "later_buckets_untouched m st (snd (PurgeCache_loop env i st)) \<and>
         fst (PurgeCache_loop env i st) \<noteq> CycleDone"
    if eq: "PurgeCache_loop env i st =
          (ex, st\<lparr>Store := (Store st)(?k := []), trace := trace st @ evs\<rparr>)"
      and ex: "ex \<noteq> CycleDone"
      and evs: "set evs \<subseteq> {GetAndDeleteSetEv ?k} \<union> range DebugCouldNotDecode
            \<union> range (\<lambda>(a, b). FuncClientSingletonEv a b) \<union> range (\<lambda>(a, b). EmitErrorEventEv a b)"
    for ex evs
    using untouched_bucket_step [of i m evs st] Suc.prems lt evs eq ex by simp
  show ?case
  proof (cases "Store st ?k = []")
    case True
    show ?thesis
      by (rule step [OF PurgeCache_loop_empty [OF i10 True]]) simp
  next
    case False
    show ?thesis
    proof (cases "processAnalyticsValues (msgpack_Unmarshal env) (Store st ?k)")
      case (Inl p)
      show ?thesis
        by (rule stop [OF PurgeCache_loop_panic [OF i10 refl False Inl]]) simp_all
    next
      case (Inr r)
      obtain keys' failed' where r: "r = (keys', failed')" by (cases r)
      show ?thesis
      proof (cases "json_Marshal env keys'")
        case (Inl e')
        show ?thesis
          by (rule stop [OF PurgeCache_loop_marshal_failed [OF i10 refl False Inr [unfolded r] Inl]])
            simp_all
      next
        case (Inr data)
        show ?thesis
          by (rule step [OF PurgeCache_loop_step [OF i10 refl False \<open>_ = Inr r\<close> [unfolded r] Inr]])
            (rule bucket_events_subset)
      qed
    qed
  qed
qed

lemma PurgeCache_ping_failed:
  "ping_error env = Some e \<Longrightarrow>
   PurgeCache env st = (PingFailed, st\<lparr>trace := trace st @ [FuncClientSingletonEv ''Ping'' None]\<rparr>)"
  by (simp add: PurgeCache_def emit_def)

lemma PurgeCache_ping_ok:
  "ping_error env = None \<Longrightarrow>
   PurgeCache env st =
     PurgeCache_loop env (- 1) (st\<lparr>trace := trace st @ [FuncClientSingletonEv ''Ping'' None]\<rparr>)"
  by (simp add: PurgeCache_def emit_def)

lemma decoded_slot_Some: "(\<exists>y. decoded_slot un s = Some y) = (\<not> decode_fails un s)"
  by (cases "un s") (auto simp: decoded_slot_def decode_fails_def split: option.splits)

lemma decoded_slot_record: "\<not> decode_fails un s \<Longrightarrow> decoded_slot un s = Some (fst (un s))"
  by (cases "un s") (auto simp: decoded_slot_def decode_fails_def split: option.splits)

lemma sample_keys:
  "analyticsKeyName (- 1) = ''tyk-system-analytics''"
  "analyticsKeyName 2 = ''tyk-system-analytics_2''"
  by code_simp+

subsection \<open>Claims about the purge cycle\<close>

text \<open>
  Claim C1, as amended. When the elements fetched for a bucket are strings of which 3
  decode and 1 is malformed, \<open>processAnalyticsValues\<close> decodes exactly 3 records and counts
  exactly 1 failed record, but the slice it returns, which \<open>PurgeCache\<close> marshals and
  forwards to the remote collector for that bucket, has length 4: the 3 decoded records at
  the positions of their elements (each slot holds the record the decoder produced from
  the element at that position) and a nil entry at the position of the malformed one.
\<close>

theorem C1_three_decoded_one_failed:
  fixes env :: "'r purge_env"
  assumes "length (filter (\<lambda>s. \<not> decode_fails (msgpack_Unmarshal env) s) ss) = 3"
    and "length (filter (decode_fails (msgpack_Unmarshal env)) ss) = 1"
  shows "\<exists>keys.
      processAnalyticsValues (msgpack_Unmarshal env) (map StrElem ss) = Inr (keys, 1) \<and>
      length keys = 4 \<and>
      length (filter (\<lambda>k. k \<noteq> None) keys) = 3 \<and>
      length (filter (\<lambda>k. k = None) keys) = 1 \<and>
      (\<forall>n < 4. (keys ! n = None) = decode_fails (msgpack_Unmarshal env) (ss ! n)) \<and>
      (\<forall>n < 4. \<not> decode_fails (msgpack_Unmarshal env) (ss ! n) \<longrightarrow>
         keys ! n = Some (fst (msgpack_Unmarshal env (ss ! n)))) \<and>
      (\<forall>i st data.
         i < 10 \<and> Store st (analyticsKeyName i) = map StrElem ss \<and>
         json_Marshal env keys = Inr data \<longrightarrow>
         PurgeCache_loop env i st =
           PurgeCache_loop env (i + 1)
             (st\<lparr>Store := (Store st)(analyticsKeyName i := []),
                 trace := trace st @
                   [GetAndDeleteSetEv (analyticsKeyName i), DebugCouldNotDecode 1,
                    FuncClientSingletonEv ''PurgeAnalyticsData'' (Some data)] @
                   (case purge_error env i data of None \<Rightarrow> []
                    | Some e \<Rightarrow> [EmitErrorEventEv ''PurgeAnalyticsData'' e])\<rparr>))"
proof -
  let ?un = "msgpack_Unmarshal env"
  let ?keys = "map (decoded_slot ?un) ss"
  have len: "length ss = 4"
    using length_filter_split [of "decode_fails ?un" ss] assms by simp
  have res: "processAnalyticsValues ?un (map StrElem ss) = Inr (?keys, 1)"
    using assms(2) by (simp add: processAnalyticsValues_strings)
  have nonnil: "filter (\<lambda>k. k \<noteq> None) ?keys =
      map (decoded_slot ?un) (filter (\<lambda>s. \<not> decode_fails ?un s) ss)"
    by (simp add: filter_map comp_def decoded_slot_Some)
  have nil: "filter (\<lambda>k. k = None) ?keys =
      map (decoded_slot ?un) (filter (decode_fails ?un) ss)"
    by (simp add: filter_map comp_def decoded_slot_None)
  have slots: "\<forall>n < 4. (?keys ! n = None) = decode_fails ?un (ss ! n)"
    using len by (simp add: decoded_slot_None)
  have records: "\<forall>n < 4. \<not> decode_fails ?un (ss ! n) \<longrightarrow>
      ?keys ! n = Some (fst (?un (ss ! n)))"
    using len by (simp add: decoded_slot_record)
  have cycle: "PurgeCache_loop env i st =
           PurgeCache_loop env (i + 1)
             (st\<lparr>Store := (Store st)(analyticsKeyName i := []),
                 trace := trace st @
                   [GetAndDeleteSetEv (analyticsKeyName i), DebugCouldNotDecode 1,
                    FuncClientSingletonEv ''PurgeAnalyticsData'' (Some data)] @
                   (case purge_error env i data of None \<Rightarrow> []
                    | Some e \<Rightarrow> [EmitErrorEventEv ''PurgeAnalyticsData'' e])\<rparr>)"
    if "i < 10" "Store st (analyticsKeyName i) = map StrElem ss"
      "json_Marshal env ?keys = Inr data" for i st data
  proof -
    have "map StrElem ss \<noteq> []" using len by auto
    from PurgeCache_loop_step [OF that(1) that(2) this res that(3)] show ?thesis .
  qed
  show ?thesis
  proof (intro exI [of _ ?keys] conjI)
    show "processAnalyticsValues ?un (map StrElem ss) = Inr (?keys, 1)" by (rule res)
    show "length ?keys = 4" using len by simp
    show "length (filter (\<lambda>k. k \<noteq> None) ?keys) = 3" using assms(1) nonnil by simp
    show "length (filter (\<lambda>k. k = None) ?keys) = 1" using assms(2) nil by simp
    show "\<forall>n < 4. (?keys ! n = None) = decode_fails ?un (ss ! n)" by (rule slots)
    show "\<forall>n < 4. \<not> decode_fails ?un (ss ! n) \<longrightarrow>
        ?keys ! n = Some (fst (?un (ss ! n)))" by (rule records)
    show "\<forall>i st data.
         i < 10 \<and> Store st (analyticsKeyName i) = map StrElem ss \<and>
         json_Marshal env ?keys = Inr data \<longrightarrow>
         PurgeCache_loop env i st =
           PurgeCache_loop env (i + 1)
             (st\<lparr>Store := (Store st)(analyticsKeyName i := []),
                 trace := trace st @
                   [GetAndDeleteSetEv (analyticsKeyName i), DebugCouldNotDecode 1,
                    FuncClientSingletonEv ''PurgeAnalyticsData'' (Some data)] @
                   (case purge_error env i data of None \<Rightarrow> []
                    | Some e \<Rightarrow> [EmitErrorEventEv ''PurgeAnalyticsData'' e])\<rparr>)"
      using cycle by blast
  qed
qed

text \<open>
  The sample bucket: 3 records decode, 1 fails, and the slice has 4 entries, the records
  \<open>r1\<close>, \<open>r2\<close> and \<open>r3\<close> at the positions of their elements and nil at the position of
  the malformed one.
\<close>

theorem C1_witness:
  "length (filter (\<lambda>s. \<not> decode_fails (msgpack_Unmarshal sample_purge_env) s) sample_records) = 3 \<and>
   length (filter (decode_fails (msgpack_Unmarshal sample_purge_env)) sample_records) = 1 \<and>
   (\<exists>keys.
      processAnalyticsValues (msgpack_Unmarshal sample_purge_env) (map StrElem sample_records) =
        Inr (keys, 1) \<and>
      length keys = 4 \<and>
      length (filter (\<lambda>k. k \<noteq> None) keys) = 3 \<and>
      length (filter (\<lambda>k. k = None) keys) = 1 \<and>
      keys ! 0 = Some ''r1'' \<and> keys ! 1 = Some ''r2'' \<and> keys ! 2 = None \<and>
      keys ! 3 = Some ''r3'')"
proof -
  let ?un = "msgpack_Unmarshal sample_purge_env"
  have h1: "length (filter (\<lambda>s. \<not> decode_fails ?un s) sample_records) = 3"
    by (simp add: decode_fails_def sample_purge_env_def sample_unmarshal_def sample_records_def)
  have h2: "length (filter (decode_fails ?un) sample_records) = 1"
    by (simp add: decode_fails_def sample_purge_env_def sample_unmarshal_def sample_records_def)
  from C1_three_decoded_one_failed [OF h1 h2]
  obtain keys where k:
    "processAnalyticsValues ?un (map StrElem sample_records) = Inr (keys, 1)"
    "length keys = 4"
    "length (filter (\<lambda>k. k \<noteq> None) keys) = 3"
    "length (filter (\<lambda>k. k = None) keys) = 1"
    "\<forall>n < 4. (keys ! n = None) = decode_fails ?un (sample_records ! n)"
    "\<forall>n < 4. \<not> decode_fails ?un (sample_records ! n) \<longrightarrow>
       keys ! n = Some (fst (?un (sample_records ! n)))"
    by blast
  have f: "\<not> decode_fails ?un (sample_records ! 0)" "\<not> decode_fails ?un (sample_records ! 1)"
    "decode_fails ?un (sample_records ! 2)" "\<not> decode_fails ?un (sample_records ! 3)"
    by (simp_all add: decode_fails_def sample_purge_env_def sample_unmarshal_def
        sample_records_def)
  have r: "fst (?un (sample_records ! 0)) = ''r1''" "fst (?un (sample_records ! 1)) = ''r2''"
    "fst (?un (sample_records ! 3)) = ''r3''"
    by (simp_all add: sample_purge_env_def sample_unmarshal_def sample_records_def)
  have n: "(0 :: nat) < 4" "(1 :: nat) < 4" "(2 :: nat) < 4" "(3 :: nat) < 4" by simp_all
  have s0: "keys ! 0 = Some ''r1''" using k(6) n(1) f(1) r(1) by metis
  have s1: "keys ! 1 = Some ''r2''" using k(6) n(2) f(2) r(2) by metis
  have s2: "keys ! 2 = None" using k(5) n(3) f(3) by metis
  have s3: "keys ! 3 = Some ''r3''" using k(6) n(4) f(4) r(3) by metis
  from h1 h2 k(1-4) s0 s1 s2 s3 show ?thesis by blast
qed

text \<open>
  On the sample bucket the claim as written fails: the slice forwarded for bucket -1 has
  4 entries, the third of which is nil, not 3.
\<close>

theorem C1_counterexample:
  "processAnalyticsValues sample_unmarshal (map StrElem sample_records) =
     Inr ([Some ''r1'', Some ''r2'', None, Some ''r3''], 1) \<and>
   json_Marshal sample_purge_env [Some ''r1'', Some ''r2'', None, Some ''r3''] =
     Inr ''r1;r2;null;r3;'' \<and>
   trace (snd (PurgeCache sample_purge_env sample_purge_state)) ! 3 =
     FuncClientSingletonEv ''PurgeAnalyticsData'' (Some ''r1;r2;null;r3;'') \<and>
   length [Some ''r1'', Some ''r2'', None, Some ''r3''] \<noteq> (3 :: nat)"
  by code_simp

text \<open>
  Claim C4. When the preflight \<open>Ping\<close> call returns an error, \<open>PurgeCache\<close> returns at
  once: the queue store is as it was and the only new event is the \<open>Ping\<close> call, so
  \<open>GetAndDeleteSet\<close> is never called in that cycle.
\<close>

theorem C4_ping_failure_touches_no_bucket:
  assumes "ping_error env = Some e"
  shows "fst (PurgeCache env st) = PingFailed \<and>
         Store (snd (PurgeCache env st)) = Store st \<and>
         trace (snd (PurgeCache env st)) = trace st @ [FuncClientSingletonEv ''Ping'' None] \<and>
         (\<forall>k. GetAndDeleteSetEv k \<notin> set (drop (length (trace st)) (trace (snd (PurgeCache env st)))))"
  using assms by (simp add: PurgeCache_ping_failed)

theorem C4_witness:
  "ping_error (sample_purge_env\<lparr>ping_error := Some ''rpc: connection refused''\<rparr>) =
     Some ''rpc: connection refused'' \<and>
   fst (PurgeCache (sample_purge_env\<lparr>ping_error := Some ''rpc: connection refused''\<rparr>)
     sample_purge_state) = PingFailed \<and>
   Store (snd (PurgeCache (sample_purge_env\<lparr>ping_error := Some ''rpc: connection refused''\<rparr>)
     sample_purge_state)) = Store sample_purge_state \<and>
   trace (snd (PurgeCache (sample_purge_env\<lparr>ping_error := Some ''rpc: connection refused''\<rparr>)
     sample_purge_state)) = [FuncClientSingletonEv ''Ping'' None]"
proof -
  have h: "ping_error (sample_purge_env\<lparr>ping_error := Some ''rpc: connection refused''\<rparr>) =
     Some ''rpc: connection refused''"
    by simp
  have t: "trace sample_purge_state = []" by (simp add: sample_purge_state_def)
  from C4_ping_failure_touches_no_bucket [OF h, of sample_purge_state] h t
  show ?thesis by simp
qed

text \<open>
  Claim C10. When marshalling the decoded records of bucket \<open>m\<close> fails, the loop returns
  at that bucket, the cycle does not run to its end, and every bucket with a higher index
  is neither read nor drained during the cycle. A remote-call failure at a bucket, in
  contrast, is followed by the iteration for the next bucket.
\<close>

theorem C10_marshal_failure_ends_cycle:
  assumes "- 1 \<le> m" "m < 10"
    and "Store st (analyticsKeyName m) = vs" "vs \<noteq> []"
    and "processAnalyticsValues (msgpack_Unmarshal env) vs = Inr (keys, failed)"
    and "json_Marshal env keys = Inl e"
  shows "PurgeCache_loop env m st =
           (MarshalFailed,
            st\<lparr>Store := (Store st)(analyticsKeyName m := []),
               trace := trace st @
                 [GetAndDeleteSetEv (analyticsKeyName m), DebugCouldNotDecode failed]\<rparr>) \<and>
         fst (PurgeCache env st) \<noteq> CycleDone \<and>
         later_buckets_untouched m st (snd (PurgeCache env st)) \<and>
         (i < 10 \<and> Store st2 (analyticsKeyName i) = vs2 \<and> vs2 \<noteq> [] \<and>
          processAnalyticsValues (msgpack_Unmarshal env) vs2 = Inr (keys2, failed2) \<and>
          json_Marshal env keys2 = Inr data \<and> purge_error env i data = Some e2 \<longrightarrow>
          PurgeCache_loop env i st2 =
            PurgeCache_loop env (i + 1)
              (st2\<lparr>Store := (Store st2)(analyticsKeyName i := []),
                   trace := trace st2 @
                     [GetAndDeleteSetEv (analyticsKeyName i), DebugCouldNotDecode failed2,
                      FuncClientSingletonEv ''PurgeAnalyticsData'' (Some data),
                      EmitErrorEventEv ''PurgeAnalyticsData'' e2]\<rparr>))"
proof (intro conjI impI)
  show "PurgeCache_loop env m st =
           (MarshalFailed,
            st\<lparr>Store := (Store st)(analyticsKeyName m := []),
               trace := trace st @
                 [GetAndDeleteSetEv (analyticsKeyName m), DebugCouldNotDecode failed]\<rparr>)"
    using assms by (intro PurgeCache_loop_marshal_failed) auto
next
  let ?st0 = "st\<lparr>trace := trace st @ [FuncClientSingletonEv ''Ping'' None]\<rparr>"
  have ping: "later_buckets_untouched m st ?st0"
    by (simp add: later_buckets_untouched_def)
  have run: "later_buckets_untouched m ?st0 (snd (PurgeCache_loop env (- 1) ?st0)) \<and>
         fst (PurgeCache_loop env (- 1) ?st0) \<noteq> CycleDone"
    using assms by (intro marshal_failure_stops_cycle [where vs = vs]) auto
  show "fst (PurgeCache env st) \<noteq> CycleDone"
  proof (cases "ping_error env")
    case None
    then show ?thesis using run by (simp add: PurgeCache_ping_ok)
  next
    case (Some a)
    then show ?thesis by (simp add: PurgeCache_ping_failed)
  qed
  show "later_buckets_untouched m st (snd (PurgeCache env st))"
  proof (cases "ping_error env")
    case None
    then show ?thesis
      using later_buckets_untouched_trans [OF ping conjunct1 [OF run]]
      by (simp add: PurgeCache_ping_ok)
  next
    case (Some a)
    then show ?thesis using ping by (simp add: PurgeCache_ping_failed)
  qed
next
  assume a: "i < 10 \<and> Store st2 (analyticsKeyName i) = vs2 \<and> vs2 \<noteq> [] \<and>
          processAnalyticsValues (msgpack_Unmarshal env) vs2 = Inr (keys2, failed2) \<and>
          json_Marshal env keys2 = Inr data \<and> purge_error env i data = Some e2"
  then have "PurgeCache_loop env i st2 =
     PurgeCache_loop env (i + 1)
       (st2\<lparr>Store := (Store st2)(analyticsKeyName i := []),
           trace := trace st2 @
             [GetAndDeleteSetEv (analyticsKeyName i), DebugCouldNotDecode failed2,
              FuncClientSingletonEv ''PurgeAnalyticsData'' (Some data)] @
             (case purge_error env i data of None \<Rightarrow> []
              | Some e \<Rightarrow> [EmitErrorEventEv ''PurgeAnalyticsData'' e])\<rparr>)"
    by (intro PurgeCache_loop_step) auto
  then show "PurgeCache_loop env i st2 =
            PurgeCache_loop env (i + 1)
              (st2\<lparr>Store := (Store st2)(analyticsKeyName i := []),
                   trace := trace st2 @
                     [GetAndDeleteSetEv (analyticsKeyName i), DebugCouldNotDecode failed2,
                      FuncClientSingletonEv ''PurgeAnalyticsData'' (Some data),
                      EmitErrorEventEv ''PurgeAnalyticsData'' e2]\<rparr>)"
    using a by simp
qed

theorem C10_witness:
  "- 1 \<le> (2 :: int) \<and> (2 :: int) < 10 \<and>
   Store sample_purge_state (analyticsKeyName 2) = [StrElem ''NaN''] \<and>
   [StrElem ''NaN''] \<noteq> [] \<and>
   processAnalyticsValues (msgpack_Unmarshal sample_purge_env) [StrElem ''NaN''] =
     Inr ([Some ''NaN''], 0) \<and>
   json_Marshal sample_purge_env [Some ''NaN''] = Inl ''json: unsupported value: NaN'' \<and>
   fst (PurgeCache sample_purge_env sample_purge_state) \<noteq> CycleDone \<and>
   later_buckets_untouched 2 sample_purge_state
     (snd (PurgeCache sample_purge_env sample_purge_state)) \<and>
   Store sample_purge_state (analyticsKeyName (- 1)) = map StrElem sample_records \<and>
   processAnalyticsValues (msgpack_Unmarshal sample_purge_env) (map StrElem sample_records) =
     Inr ([Some ''r1'', Some ''r2'', None, Some ''r3''], 1) \<and>
   json_Marshal sample_purge_env [Some ''r1'', Some ''r2'', None, Some ''r3''] =
     Inr ''r1;r2;null;r3;'' \<and>
   purge_error sample_purge_env (- 1) ''r1;r2;null;r3;'' = Some ''rpc: timeout'' \<and>
   PurgeCache_loop sample_purge_env (- 1) sample_purge_state =
     PurgeCache_loop sample_purge_env (- 1 + 1)
       (sample_purge_state
          \<lparr>Store := (Store sample_purge_state)(analyticsKeyName (- 1) := []),
           trace := trace sample_purge_state @
             [GetAndDeleteSetEv (analyticsKeyName (- 1)), DebugCouldNotDecode 1,
              FuncClientSingletonEv ''PurgeAnalyticsData'' (Some ''r1;r2;null;r3;''),
              EmitErrorEventEv ''PurgeAnalyticsData'' ''rpc: timeout'']\<rparr>)"
proof -
  have h3: "Store sample_purge_state (analyticsKeyName 2) = [StrElem ''NaN'']"
    by (simp add: sample_keys sample_purge_state_def)
  have h4: "[StrElem ''NaN''] \<noteq> []" by simp
  have h5: "processAnalyticsValues (msgpack_Unmarshal sample_purge_env) [StrElem ''NaN''] =
     Inr ([Some ''NaN''], 0)"
    by (simp add: processAnalyticsValues_def decodeAnalyticsRecord_def sample_unmarshal_def
        sample_purge_env_def)
  have h6: "json_Marshal sample_purge_env [Some ''NaN''] = Inl ''json: unsupported value: NaN''"
    by (simp add: sample_purge_env_def sample_marshal_def)
  have c1: "(- 1 :: int) < 10" by simp
  have c2: "Store sample_purge_state (analyticsKeyName (- 1)) = map StrElem sample_records"
    by (simp add: sample_keys sample_purge_state_def)
  have c3: "map StrElem sample_records \<noteq> []" by (simp add: sample_records_def)
  have c4: "processAnalyticsValues (msgpack_Unmarshal sample_purge_env)
      (map StrElem sample_records) = Inr ([Some ''r1'', Some ''r2'', None, Some ''r3''], 1)"
    by (simp add: processAnalyticsValues_def decodeAnalyticsRecord_def sample_unmarshal_def
        sample_purge_env_def sample_records_def)
  have c5: "json_Marshal sample_purge_env [Some ''r1'', Some ''r2'', None, Some ''r3''] =
     Inr ''r1;r2;null;r3;''"
    by (simp add: sample_purge_env_def sample_marshal_def)
  have c6: "purge_error sample_purge_env (- 1) ''r1;r2;null;r3;'' = Some ''rpc: timeout''"
    by (simp add: sample_purge_env_def)
  from C10_marshal_failure_ends_cycle [OF _ _ h3 h4 h5 h6,
      of "- 1" sample_purge_state "map StrElem sample_records"
        "[Some ''r1'', Some ''r2'', None, Some ''r3'']" 1 "''r1;r2;null;r3;''" "''rpc: timeout''"]
    h3 h5 h6 c1 c2 c3 c4 c5 c6
  show ?thesis by simp
qed

subsection \<open>Registration of the stub handlers\<close>

lemma registrations_AddFunc:
  "registrations (AddFunc n f g) k = registrations g k + (if n = k then 1 else 0)"
  by (simp add: registrations_def AddFunc_def)

lemma Connect_guarded:
  assumes "guarded g k"
  shows "guarded (Connect g) k"
proof -
  let ?g1 = "if \<not> addedFuncs g ''Ping''
             then (AddFunc ''Ping'' (BoolFunc False) g)\<lparr>addedFuncs := (addedFuncs g)(''Ping'' := True)\<rparr>
             else g"
  have r1: "registrations (g'\<lparr>addedFuncs := a\<rparr>) k = registrations g' k" for g' a
    by (simp add: registrations_def)
  have g1: "guarded ?g1 k"
    using assms by (auto simp: guarded_def registrations_AddFunc r1)
  have "Connect g =
     (if \<not> addedFuncs ?g1 ''PurgeAnalyticsData''
      then (AddFunc ''PurgeAnalyticsData'' (ErrorFunc (\<lambda>data. None)) ?g1)
             \<lparr>addedFuncs := (addedFuncs ?g1)(''PurgeAnalyticsData'' := True)\<rparr>
      else ?g1)"
    by (simp add: Connect_def Let_def)
  moreover have "guarded (if \<not> addedFuncs g1 ''PurgeAnalyticsData''
      then (AddFunc ''PurgeAnalyticsData'' (ErrorFunc (\<lambda>data. None)) g1)
             \<lparr>addedFuncs := (addedFuncs g1)(''PurgeAnalyticsData'' := True)\<rparr>
      else g1) k" if "guarded g1 k" for g1
    using that by (auto simp: guarded_def registrations_AddFunc r1)
  ultimately show ?thesis using g1 by simp
qed

lemma Connect_funpow_guarded: "guarded g k \<Longrightarrow> guarded ((Connect ^^ n) g) k"
  by (induction n) (simp_all add: Connect_guarded)

lemma guarded_at_most_once: "guarded g k \<Longrightarrow> registrations g k \<le> 1"
  by (auto simp: guarded_def)

lemma Connect_process_start:
  "Connect process_start =
     \<lparr>addedFuncs = (\<lambda>n. False)(''Ping'' := True, ''PurgeAnalyticsData'' := True),
      dispatcher = [(''Ping'', BoolFunc False), (''PurgeAnalyticsData'', ErrorFunc (\<lambda>data. None))]\<rparr>"
  by (simp add: Connect_def process_start_def AddFunc_def Let_def)

lemma Connect_idem:
  "addedFuncs g ''Ping'' \<Longrightarrow> addedFuncs g ''PurgeAnalyticsData'' \<Longrightarrow> Connect g = g"
  by (simp add: Connect_def Let_def)

lemma Connect_again: "Connect (Connect g) = Connect g"
  by (rule Connect_idem) (simp_all add: Connect_def Let_def AddFunc_def)

lemma Connect_funpow_Suc: "(Connect ^^ Suc n) g = Connect g"
  by (induction n) (simp_all add: Connect_again)

text \<open>
  Claim C8. From a state in which each of the two names is registered at most once, and
  is marked in \<open>addedFuncs\<close> if it is registered, any number of calls of \<open>Connect\<close>
  leaves each of \<open>Ping\<close> and \<open>PurgeAnalyticsData\<close> registered at most once. From the
  start of a process, one call or more leave exactly the two stubs registered: \<open>Ping\<close>
  answering false and \<open>PurgeAnalyticsData\<close> answering no error.
\<close>

theorem C8_stubs_registered_at_most_once:
  assumes "guarded g ''Ping''" and "guarded g ''PurgeAnalyticsData''"
  shows "registrations ((Connect ^^ n) g) ''Ping'' \<le> 1 \<and>
         registrations ((Connect ^^ n) g) ''PurgeAnalyticsData'' \<le> 1 \<and>
         dispatcher ((Connect ^^ Suc n) process_start) =
           [(''Ping'', BoolFunc False), (''PurgeAnalyticsData'', ErrorFunc (\<lambda>data. None))]"
proof (intro conjI)
  show "registrations ((Connect ^^ n) g) ''Ping'' \<le> 1"
    by (rule guarded_at_most_once [OF Connect_funpow_guarded [OF assms(1)]])
  show "registrations ((Connect ^^ n) g) ''PurgeAnalyticsData'' \<le> 1"
    by (rule guarded_at_most_once [OF Connect_funpow_guarded [OF assms(2)]])
  show "dispatcher ((Connect ^^ Suc n) process_start) =
           [(''Ping'', BoolFunc False), (''PurgeAnalyticsData'', ErrorFunc (\<lambda>data. None))]"
    by (simp add: Connect_funpow_Suc Connect_process_start del: funpow.simps)
qed

theorem C8_witness:
  "guarded process_start ''Ping'' \<and> guarded process_start ''PurgeAnalyticsData'' \<and>
   registrations (Connect (Connect (Connect process_start))) ''Ping'' \<le> 1 \<and>
   registrations (Connect (Connect (Connect process_start))) ''PurgeAnalyticsData'' \<le> 1 \<and>
   dispatcher (Connect (Connect (Connect process_start))) =
     [(''Ping'', BoolFunc False), (''PurgeAnalyticsData'', ErrorFunc (\<lambda>data. None))]"
proof -
  have h1: "guarded process_start ''Ping''"
    and h2: "guarded process_start ''PurgeAnalyticsData''"
    by (simp_all add: guarded_def registrations_def process_start_def)
  have n3: "(Connect ^^ 3) process_start = Connect (Connect (Connect process_start))"
    by (simp add: numeral_3_eq_3)
  have n3': "(Connect ^^ Suc 2) process_start = Connect (Connect (Connect process_start))"
    by (simp add: numeral_2_eq_2)
  from C8_stubs_registered_at_most_once [OF h1 h2, of 3]
    C8_stubs_registered_at_most_once [OF h1 h2, of 2] h1 h2 n3 n3'
  show ?thesis by (simp del: funpow.simps)
qed

section \<open>Properties of the configuration sync\<close>

lemma sanitizeConfig_apply:
  "sanitizeConfig mc k = (if k \<in> set sanitzeFields then None else mc k)"
  by (simp add: sanitizeConfig_def sanitzeFields_def)

text \<open>
  Claim C5. \<open>sanitizeConfig\<close> removes exactly the top-level keys \<open>secret\<close>,
  \<open>node_secret\<close>, \<open>storage\<close>, \<open>slave_options\<close> and \<open>auth_override\<close> and leaves every
  other entry of the map as it was; on the map with the keys \<open>secret\<close>, \<open>storage\<close> and
  \<open>port\<close> it yields the map with the entry of \<open>port\<close> alone.
\<close>

theorem C5_sanitizeConfig_removes_sensitive_keys:
  "sanitizeConfig mc =
     (\<lambda>k. if k \<in> {''secret'', ''node_secret'', ''storage'', ''slave_options'', ''auth_override''}
          then None else mc k) \<and>
   dom (sanitizeConfig mc) =
     dom mc - {''secret'', ''node_secret'', ''storage'', ''slave_options'', ''auth_override''} \<and>
   sanitizeConfig
     [''secret'' \<mapsto> JString ''x'', ''storage'' \<mapsto> JObject [], ''port'' \<mapsto> JNumber 8080] =
     [''port'' \<mapsto> JNumber 8080]"
proof (intro conjI)
  show a: "sanitizeConfig mc =
     (\<lambda>k. if k \<in> {''secret'', ''node_secret'', ''storage'', ''slave_options'', ''auth_override''}
          then None else mc k)"
    by (rule ext) (simp add: sanitizeConfig_apply sanitzeFields_def)
  show "dom (sanitizeConfig mc) =
     dom mc - {''secret'', ''node_secret'', ''storage'', ''slave_options'', ''auth_override''}"
    unfolding a by (auto simp: dom_def)
  show "sanitizeConfig
     [''secret'' \<mapsto> JString ''x'', ''storage'' \<mapsto> JObject [], ''port'' \<mapsto> JNumber 8080] =
     [''port'' \<mapsto> JNumber 8080]"
    by (rule ext) (simp add: sanitizeConfig_apply sanitzeFields_def)
qed

subsection \<open>The exits of handleNewConfiguration\<close>

lemma handleNewConfiguration_decode_failed:
  "decoded_push env payload w = Inl e \<Longrightarrow>
   handleNewConfiguration env gw payload w = (DecodeFailed, w)"
  by (simp add: handleNewConfiguration_def decoded_push_def)

lemma handleNewConfiguration_no_match:
  "decoded_push env payload w = Inr p \<Longrightarrow>
   ForHostname p \<noteq> Hostname (hostDetails gw) \<Longrightarrow> ForNodeID p \<noteq> GetNodeID gw \<Longrightarrow>
   handleNewConfiguration env gw payload w = (NoMatch, w)"
  by (simp add: handleNewConfiguration_def decoded_push_def)

lemma handleNewConfiguration_not_allowed:
  "decoded_push env payload w = Inr p \<Longrightarrow>
   ForHostname p = Hostname (hostDetails gw) \<or> ForNodeID p = GetNodeID gw \<Longrightarrow>
   \<not> AllowRemoteConfig (GetConfig gw) \<Longrightarrow>
   handleNewConfiguration env gw payload w = (RemoteConfigNotAllowed, w)"
  by (auto simp add: handleNewConfiguration_def decoded_push_def)

lemma handleNewConfiguration_accepted:
  assumes "decoded_push env payload w = Inr p"
    and "ForHostname p = Hostname (hostDetails gw) \<or> ForNodeID p = GetNodeID gw"
    and "AllowRemoteConfig (GetConfig gw)"
  shows "handleNewConfiguration env gw payload w =
     (case backupConfiguration env gw w of
        (Some e, w1) \<Rightarrow> (BackupFailed, w1)
      | (None, w1) \<Rightarrow> write_and_reload env gw p w1)"
  using assms
  by (auto simp add: handleNewConfiguration_def decoded_push_def write_and_reload_def Let_def
      split: prod.splits option.splits sum.splits)

lemma write_and_reload_exit:
  "fst (write_and_reload env gw p w1) \<notin> {DecodeFailed, NoMatch, RemoteConfigNotAllowed, BackupFailed}"
  by (simp add: write_and_reload_def split: sum.splits prod.splits option.splits)

lemma handleNewConfiguration_accepted_exit:
  assumes "decoded_push env payload w = Inr p"
    and "ForHostname p = Hostname (hostDetails gw) \<or> ForNodeID p = GetNodeID gw"
  shows "fst (handleNewConfiguration env gw payload w) \<notin> {DecodeFailed, NoMatch}"
proof (cases "AllowRemoteConfig (GetConfig gw)")
  case False
  from handleNewConfiguration_not_allowed [OF assms False] show ?thesis by simp
next
  case True
  obtain r w1 where b: "backupConfiguration env gw w = (r, w1)"
    by (cases "backupConfiguration env gw w")
  show ?thesis
    using write_and_reload_exit [of env gw p w1]
    by (cases r) (simp_all add: handleNewConfiguration_accepted [OF assms True] b)
qed

lemma decoded_push_sample:
  "decoded_push sample_sync_env ''h1'' sample_world =
     Inr \<lparr>ConfigPayload.Configuration = sample_config\<lparr>OtherSettings := [(''listen_port'', ''9090'')]\<rparr>,
          ForHostname = ''h1'', ForNodeID = [], TimeStamp = 0\<rparr>"
  by (simp add: decoded_push_def sample_sync_env_def)

lemma decoded_push_readonly:
  "decoded_push readonly_sync_env ''h1'' sample_world =
     Inr \<lparr>ConfigPayload.Configuration = sample_config\<lparr>OtherSettings := [(''listen_port'', ''9090'')]\<rparr>,
          ForHostname = ''h1'', ForNodeID = [], TimeStamp = 0\<rparr>"
  by (simp add: decoded_push_def sample_sync_env_def readonly_sync_env_def)

lemma sample_gateway_accepts:
  "ForHostname \<lparr>ConfigPayload.Configuration = sample_config\<lparr>OtherSettings := [(''listen_port'', ''9090'')]\<rparr>,
          ForHostname = ''h1'', ForNodeID = [], TimeStamp = 0\<rparr> = Hostname (hostDetails sample_gateway) \<or>
   ForNodeID \<lparr>ConfigPayload.Configuration = sample_config\<lparr>OtherSettings := [(''listen_port'', ''9090'')]\<rparr>,
          ForHostname = ''h1'', ForNodeID = [], TimeStamp = 0\<rparr> = GetNodeID sample_gateway"
  "AllowRemoteConfig (GetConfig sample_gateway)"
  by (simp_all add: sample_gateway_def sample_config_def)

lemma backup_readonly:
  "backupConfiguration readonly_sync_env sample_gateway sample_world =
     (Some ''read-only file system'',
      sample_world\<lparr>effects :=
        [WriteFileEff ''Sun-Nov- 1-03-23-00-2026.tyk.conf'' ''listen_port=8080;''
           (Some ''read-only file system'')]\<rparr>)"
  by (simp add: backupConfiguration_def WriteFile_def readonly_sync_env_def sample_sync_env_def
      sample_gateway_def sample_config_def sample_world_def Let_def)

lemma backup_sample:
  "fst (backupConfiguration sample_sync_env sample_gateway sample_world) = None"
  by (simp add: backupConfiguration_def WriteFile_def sample_sync_env_def
      sample_gateway_def sample_config_def sample_world_def Let_def)

lemma digits_samples: "digits 1 = ''1''" "digits (Suc 0) = ''1''" "digits 5 = ''5''"
  by code_simp+

text \<open>
  Claim C2. For a payload that decodes, \<open>handleNewConfiguration\<close> proceeds past the
  addressing check exactly when the payload's \<open>ForHostname\<close> equals the node's hostname or
  its \<open>ForNodeID\<close> equals the node's id; it ignores the payload, leaving everything as it
  was, exactly when both fields differ.
\<close>

theorem C2_addressing_check:
  assumes "decoded_push env payload w = Inr p"
  shows "(fst (handleNewConfiguration env gw payload w) \<notin> {DecodeFailed, NoMatch}) =
           (ForHostname p = Hostname (hostDetails gw) \<or> ForNodeID p = GetNodeID gw) \<and>
         (handleNewConfiguration env gw payload w = (NoMatch, w)) =
           (ForHostname p \<noteq> Hostname (hostDetails gw) \<and> ForNodeID p \<noteq> GetNodeID gw)"
proof (cases "ForHostname p = Hostname (hostDetails gw) \<or> ForNodeID p = GetNodeID gw")
  case True
  from handleNewConfiguration_accepted_exit [OF assms True] True
  show ?thesis by auto
next
  case False
  then have "handleNewConfiguration env gw payload w = (NoMatch, w)"
    using handleNewConfiguration_no_match [OF assms] by simp
  then show ?thesis using False by simp
qed

theorem C2_witness:
  "decoded_push sample_sync_env ''h1'' sample_world =
     Inr \<lparr>ConfigPayload.Configuration = sample_config\<lparr>OtherSettings := [(''listen_port'', ''9090'')]\<rparr>,
          ForHostname = ''h1'', ForNodeID = [], TimeStamp = 0\<rparr> \<and>
   Hostname (hostDetails sample_gateway) = ''h1'' \<and> GetNodeID sample_gateway = ''node-7'' \<and>
   fst (handleNewConfiguration sample_sync_env sample_gateway ''h1'' sample_world)
     \<notin> {DecodeFailed, NoMatch} \<and>
   Hostname (hostDetails other_gateway) = ''h2'' \<and> GetNodeID other_gateway = ''node-9'' \<and>
   handleNewConfiguration sample_sync_env other_gateway ''h1'' sample_world = (NoMatch, sample_world)"
  using C2_addressing_check [OF decoded_push_sample, of sample_gateway]
    C2_addressing_check [OF decoded_push_sample, of other_gateway] decoded_push_sample
  by (simp add: sample_gateway_def other_gateway_def)

subsection \<open>Backup, write and reload\<close>

lemma backupConfiguration_failed:
  assumes "backupConfiguration env gw w = (Some e, w1)"
  shows "files w1 = files w \<and>
         (effects w1 = effects w \<or>
          (\<exists>oldConfig. MarshalIndent env (GetConfig gw) = Inr oldConfig \<and>
             effects w1 = effects w @
               [WriteFileEff (Now_Format env @ ''.tyk.conf'') oldConfig (Some e)]))"
  using assms
  by (auto simp add: backupConfiguration_def WriteFile_def Let_def split: sum.splits option.splits)

lemma backupConfiguration_done:
  assumes "backupConfiguration env gw w = (None, w1)"
  shows "\<exists>oldConfig. MarshalIndent env (GetConfig gw) = Inr oldConfig \<and>
           files w1 = (files w)(Now_Format env @ ''.tyk.conf'' \<mapsto> oldConfig) \<and>
           effects w1 = effects w @ [WriteFileEff (Now_Format env @ ''.tyk.conf'') oldConfig None]"
  using assms
  by (auto simp add: backupConfiguration_def WriteFile_def Let_def split: sum.splits option.splits)

lemma writeNewConfiguration_effects:
  assumes "writeNewConfiguration env p w1 = Inr (r, w2)"
  shows "effects w2 = effects w1 \<or>
         (\<exists>newConfig. MarshalIndent env (ConfigPayload.Configuration p) = Inr newConfig \<and>
            effects w2 = effects w1 @ [WriteFileEff (hd (confPaths env)) newConfig r])"
  using assms
  by (auto simp add: writeNewConfiguration_def WriteFile_def
      split: sum.splits option.splits list.splits)

lemma write_and_reload_effects:
  "\<exists>rest. effects (snd (write_and_reload env gw p w1)) = effects w1 @ rest \<and>
     (\<forall>path data res. WriteFileEff path data res \<in> set rest \<longrightarrow>
        path = hd (confPaths env) \<and> MarshalIndent env (ConfigPayload.Configuration p) = Inr data) \<and>
     (\<forall>pid res. KillEff pid res \<in> set rest \<longrightarrow> pid = PID (hostDetails gw) \<and> pid \<noteq> 0)"
proof (cases "writeNewConfiguration env p w1")
  case (Inl a)
  then show ?thesis by (simp add: write_and_reload_def)
next
  case (Inr b)
  obtain r w2 where b: "b = (r, w2)" by (cases b)
  from writeNewConfiguration_effects [OF Inr [unfolded b]]
  consider "effects w2 = effects w1"
    | newConfig where "MarshalIndent env (ConfigPayload.Configuration p) = Inr newConfig"
      "effects w2 = effects w1 @ [WriteFileEff (hd (confPaths env)) newConfig r]"
    by blast
  then show ?thesis
  proof cases
    case 1
    then show ?thesis
      using Inr b by (cases r; cases "Kill_error env (PID (hostDetails gw))")
        (simp_all add: write_and_reload_def)
  next
    case 2
    then show ?thesis
      using Inr b by (cases r; cases "Kill_error env (PID (hostDetails gw))")
        (simp_all add: write_and_reload_def)
  qed
qed

text \<open>
  Claim C3. For an accepted payload (decoded, addressed to this node, remote configuration
  allowed): when \<open>backupConfiguration\<close> returns an error, \<open>handleNewConfiguration\<close> stops
  there, the files are as they were and the only possible new effect is the failed write
  of the backup, so the new configuration is never written; when the backup succeeds, its
  write of the current configuration is the first new effect, and every other file write,
  which is the write of the new configuration to the primary path, comes after it.
\<close>

theorem C3_backup_before_overwrite:
  assumes "decoded_push env payload w = Inr p"
    and "ForHostname p = Hostname (hostDetails gw) \<or> ForNodeID p = GetNodeID gw"
    and "AllowRemoteConfig (GetConfig gw)"
  shows "(\<forall>e. fst (backupConfiguration env gw w) = Some e \<longrightarrow>
            fst (handleNewConfiguration env gw payload w) = BackupFailed \<and>
            files (snd (handleNewConfiguration env gw payload w)) = files w \<and>
            (effects (snd (handleNewConfiguration env gw payload w)) = effects w \<or>
             (\<exists>oldConfig. MarshalIndent env (GetConfig gw) = Inr oldConfig \<and>
                effects (snd (handleNewConfiguration env gw payload w)) = effects w @
                  [WriteFileEff (Now_Format env @ ''.tyk.conf'') oldConfig (Some e)]))) \<and>
         (fst (backupConfiguration env gw w) = None \<longrightarrow>
            fst (handleNewConfiguration env gw payload w) \<noteq> BackupFailed \<and>
            (\<exists>oldConfig rest. MarshalIndent env (GetConfig gw) = Inr oldConfig \<and>
               effects (snd (handleNewConfiguration env gw payload w)) = effects w @
                 WriteFileEff (Now_Format env @ ''.tyk.conf'') oldConfig None # rest \<and>
               (\<forall>path data res. WriteFileEff path data res \<in> set rest \<longrightarrow>
                  path = hd (confPaths env) \<and>
                  MarshalIndent env (ConfigPayload.Configuration p) = Inr data)))"
proof -
  obtain r w1 where b: "backupConfiguration env gw w = (r, w1)"
    by (cases "backupConfiguration env gw w")
  show ?thesis
  proof (cases r)
    case (Some e)
    have "handleNewConfiguration env gw payload w = (BackupFailed, w1)"
      using b Some by (simp add: handleNewConfiguration_accepted [OF assms])
    then show ?thesis
      using backupConfiguration_failed [OF b [unfolded Some]] b Some by simp
  next
    case None
    have h: "handleNewConfiguration env gw payload w = write_and_reload env gw p w1"
      using b None by (simp add: handleNewConfiguration_accepted [OF assms])
    obtain oldConfig where old: "MarshalIndent env (GetConfig gw) = Inr oldConfig"
      "effects w1 = effects w @ [WriteFileEff (Now_Format env @ ''.tyk.conf'') oldConfig None]"
      using backupConfiguration_done [OF b [unfolded None]] by blast
    obtain rest where rest: "effects (snd (write_and_reload env gw p w1)) = effects w1 @ rest"
      "\<forall>path data res. WriteFileEff path data res \<in> set rest \<longrightarrow>
        path = hd (confPaths env) \<and> MarshalIndent env (ConfigPayload.Configuration p) = Inr data"
      using write_and_reload_effects [of env gw p w1] by blast
    have "fst (handleNewConfiguration env gw payload w) \<noteq> BackupFailed"
      using write_and_reload_exit [of env gw p w1] h by simp
    moreover have "effects (snd (handleNewConfiguration env gw payload w)) = effects w @
                 WriteFileEff (Now_Format env @ ''.tyk.conf'') oldConfig None # rest"
      using h old rest by simp
    ultimately show ?thesis using old(1) rest(2) b None by auto
  qed
qed

theorem C3_witness:
  "fst (backupConfiguration readonly_sync_env sample_gateway sample_world) =
     Some ''read-only file system'' \<and>
   fst (handleNewConfiguration readonly_sync_env sample_gateway ''h1'' sample_world) = BackupFailed \<and>
   files (snd (handleNewConfiguration readonly_sync_env sample_gateway ''h1'' sample_world)) =
     files sample_world \<and>
   effects (snd (handleNewConfiguration readonly_sync_env sample_gateway ''h1'' sample_world)) =
     [WriteFileEff ''Sun-Nov- 1-03-23-00-2026.tyk.conf'' ''listen_port=8080;''
        (Some ''read-only file system'')] \<and>
   fst (backupConfiguration sample_sync_env sample_gateway sample_world) = None \<and>
   fst (handleNewConfiguration sample_sync_env sample_gateway ''h1'' sample_world) \<noteq> BackupFailed \<and>
   (\<exists>rest.
      effects (snd (handleNewConfiguration sample_sync_env sample_gateway ''h1'' sample_world)) =
        WriteFileEff ''Sun-Nov- 1-03-23-00-2026.tyk.conf'' ''listen_port=8080;'' None # rest)"
proof -
  have m: "MarshalIndent readonly_sync_env (GetConfig sample_gateway) = Inr ''listen_port=8080;''"
    "MarshalIndent sample_sync_env (GetConfig sample_gateway) = Inr ''listen_port=8080;''"
    "Now_Format readonly_sync_env = ''Sun-Nov- 1-03-23-00-2026''"
    "Now_Format sample_sync_env = ''Sun-Nov- 1-03-23-00-2026''"
    "effects sample_world = []"
    by (simp_all add: readonly_sync_env_def sample_sync_env_def sample_gateway_def
        sample_config_def sample_world_def)
  have b1: "fst (backupConfiguration readonly_sync_env sample_gateway sample_world) =
     Some ''read-only file system''"
    by (simp add: backup_readonly)
  have e1: "effects (snd (handleNewConfiguration readonly_sync_env sample_gateway ''h1'' sample_world)) =
     [WriteFileEff ''Sun-Nov- 1-03-23-00-2026.tyk.conf'' ''listen_port=8080;''
        (Some ''read-only file system'')]"
    by (simp add: handleNewConfiguration_accepted [OF decoded_push_readonly sample_gateway_accepts]
        backup_readonly)
  from C3_backup_before_overwrite [OF decoded_push_readonly sample_gateway_accepts]
    C3_backup_before_overwrite [OF decoded_push_sample sample_gateway_accepts]
    b1 backup_sample m e1
  show ?thesis by auto
qed

lemma handleNewConfiguration_kills:
  "\<exists>new. effects (snd (handleNewConfiguration env gw payload w)) = effects w @ new \<and>
     (\<forall>pid res. KillEff pid res \<in> set new \<longrightarrow> pid = PID (hostDetails gw) \<and> pid \<noteq> 0)"
proof (cases "decoded_push env payload w")
  case (Inl e)
  then show ?thesis by (simp add: handleNewConfiguration_decode_failed)
next
  case (Inr p)
  show ?thesis
  proof (cases "ForHostname p = Hostname (hostDetails gw) \<or> ForNodeID p = GetNodeID gw")
    case False
    then show ?thesis using handleNewConfiguration_no_match [OF Inr] by simp
  next
    case match: True
    show ?thesis
    proof (cases "AllowRemoteConfig (GetConfig gw)")
      case False
      then show ?thesis using handleNewConfiguration_not_allowed [OF Inr match] by simp
    next
      case True
      obtain r w1 where b: "backupConfiguration env gw w = (r, w1)"
        by (cases "backupConfiguration env gw w")
      show ?thesis
      proof (cases r)
        case (Some e)
        have "handleNewConfiguration env gw payload w = (BackupFailed, w1)"
          using b Some by (simp add: handleNewConfiguration_accepted [OF Inr match True])
        then show ?thesis
          using backupConfiguration_failed [OF b [unfolded Some]] by auto
      next
        case None
        have h: "handleNewConfiguration env gw payload w = write_and_reload env gw p w1"
          using b None by (simp add: handleNewConfiguration_accepted [OF Inr match True])
        obtain oldConfig where old:
          "effects w1 = effects w @ [WriteFileEff (Now_Format env @ ''.tyk.conf'') oldConfig None]"
          using backupConfiguration_done [OF b [unfolded None]] by blast
        obtain rest where rest: "effects (snd (write_and_reload env gw p w1)) = effects w1 @ rest"
          "\<forall>pid res. KillEff pid res \<in> set rest \<longrightarrow> pid = PID (hostDetails gw) \<and> pid \<noteq> 0"
          using write_and_reload_effects [of env gw p w1] by blast
        show ?thesis using h old rest by auto
      qed
    qed
  qed
qed

lemma handleNewConfiguration_reload_exit:
  "fst (handleNewConfiguration env gw payload w) \<in> {ReloadFailed, ReloadSignalled} \<Longrightarrow>
   PID (hostDetails gw) \<noteq> 0"
  by (auto simp add: handleNewConfiguration_def Let_def
      split: sum.splits prod.splits option.splits if_splits)

text \<open>
  Claim C6. When the recorded process id is 0, \<open>handleNewConfiguration\<close> never reaches
  the reload: it does not leave through an exit behind the \<open>Kill\<close> call, and no signal is
  among its effects.
\<close>

theorem C6_no_reload_signal_without_pid:
  assumes "PID (hostDetails gw) = 0"
  shows "fst (handleNewConfiguration env gw payload w) \<notin> {ReloadFailed, ReloadSignalled} \<and>
         (\<exists>new. effects (snd (handleNewConfiguration env gw payload w)) = effects w @ new \<and>
            (\<forall>pid res. KillEff pid res \<notin> set new))"
  using assms handleNewConfiguration_kills [of env gw payload w]
    handleNewConfiguration_reload_exit [of env gw payload w]
  by blast

theorem C6_witness:
  "PID (hostDetails sample_gateway) = 0 \<and>
   fst (handleNewConfiguration sample_sync_env sample_gateway ''h1'' sample_world) = NoPID \<and>
   fst (handleNewConfiguration sample_sync_env sample_gateway ''h1'' sample_world)
     \<notin> {ReloadFailed, ReloadSignalled} \<and>
   (\<exists>new. effects (snd (handleNewConfiguration sample_sync_env sample_gateway ''h1'' sample_world)) =
      effects sample_world @ new \<and> (\<forall>pid res. KillEff pid res \<notin> set new))"
proof -
  have h: "PID (hostDetails sample_gateway) = 0" by (simp add: sample_gateway_def)
  have e: "fst (handleNewConfiguration sample_sync_env sample_gateway ''h1'' sample_world) = NoPID"
    by (simp add: handleNewConfiguration_def backupConfiguration_def writeNewConfiguration_def
        WriteFile_def sample_sync_env_def sample_gateway_def sample_config_def sample_world_def
        Let_def)
  from C6_no_reload_signal_without_pid [OF h, of sample_sync_env "''h1''" sample_world] h e
  show ?thesis by simp
qed

text \<open>
  Claim C9. A payload whose \<open>ForNodeID\<close> is empty passes the addressing check of
  \<open>handleNewConfiguration\<close> on a node whose own id is empty, whatever the hostnames are;
  the same holds for \<open>FromNodeID\<close> in \<open>handleSendMiniConfig\<close>.
\<close>

theorem C9_empty_node_id_passes:
  assumes "decoded_push env payload w = Inr p" and "ForNodeID p = []"
    and "Unmarshal_GetConfigPayload env payload2 = Inr q" and "GetConfigPayload.FromNodeID q = []"
    and "GetNodeID gw = []"
  shows "fst (handleNewConfiguration env gw payload w) \<notin> {DecodeFailed, NoMatch} \<and>
         fst (handleSendMiniConfig env gw payload2 w) \<notin> {RequestDecodeFailed, RequestNoMatch}"
proof
  show "fst (handleNewConfiguration env gw payload w) \<notin> {DecodeFailed, NoMatch}"
    using assms by (intro handleNewConfiguration_accepted_exit [OF assms(1)]) simp
  show "fst (handleSendMiniConfig env gw payload2 w) \<notin> {RequestDecodeFailed, RequestNoMatch}"
    using assms(3-5)
    by (simp add: handleSendMiniConfig_def Let_def split: sum.splits)
qed

theorem C9_witness:
  "decoded_push sample_sync_env ''h1'' sample_world =
     Inr \<lparr>ConfigPayload.Configuration = sample_config\<lparr>OtherSettings := [(''listen_port'', ''9090'')]\<rparr>,
          ForHostname = ''h1'', ForNodeID = [], TimeStamp = 0\<rparr> \<and>
   Unmarshal_GetConfigPayload sample_sync_env ''h1'' =
     Inr \<lparr>GetConfigPayload.FromHostname = ''h1'', FromNodeID = [], TimeStamp = 0\<rparr> \<and>
   GetNodeID unregistered_gateway = [] \<and>
   Hostname (hostDetails unregistered_gateway) \<noteq> ''h1'' \<and>
   fst (handleNewConfiguration sample_sync_env unregistered_gateway ''h1'' sample_world)
     \<notin> {DecodeFailed, NoMatch} \<and>
   fst (handleSendMiniConfig sample_sync_env unregistered_gateway ''h1'' sample_world)
     \<notin> {RequestDecodeFailed, RequestNoMatch}"
proof -
  have q: "Unmarshal_GetConfigPayload sample_sync_env ''h1'' =
     Inr \<lparr>GetConfigPayload.FromHostname = ''h1'', FromNodeID = [], TimeStamp = 0\<rparr>"
    by (simp add: sample_sync_env_def)
  have g: "GetNodeID unregistered_gateway = []"
    "Hostname (hostDetails unregistered_gateway) \<noteq> ''h1''"
    by (simp_all add: unregistered_gateway_def)
  from C9_empty_node_id_passes [OF decoded_push_sample _ q _ g(1)] decoded_push_sample q g
  show ?thesis by simp
qed

section \<open>Properties of the load report\<close>

text \<open>
  Claim C7. \<open>NotifyCurrentServerStatus\<close> either emits nothing or emits one notification
  whose payload is the marshalled \<open>Server\<close> of this node, with \<open>LoadPerSec\<close> equal to 1
  when the measured rate is 0 and equal to the measured rate when that is greater than 0;
  a report is emitted only when the DRL manager exists and is ready.
\<close>

theorem C7_load_report:
  "NotifyCurrentServerStatus env gw w = w \<or>
   (\<exists>m server asJson.
      DRLManager gw = Some m \<and> Ready m \<and>
      NotifyCurrentServerStatus env gw w =
        w\<lparr>effects := effects w @ [NotifyEff NoticeGatewayDRLNotification asJson]\<rparr> \<and>
      Marshal_Server env server = Inr asJson \<and>
      HostName server = Hostname (hostDetails gw) \<and>
      ID server = GetNodeID gw \<and>
      TagHash server = getTagHash gw \<and>
      (GlobalRate_Rate env = 0 \<longrightarrow> LoadPerSec server = 1) \<and>
      (0 < sint (GlobalRate_Rate env) \<longrightarrow> LoadPerSec server = GlobalRate_Rate env) \<and>
      LoadPerSec server \<noteq> 0)"
proof (cases "DRLManager gw")
  case None
  then show ?thesis by (simp add: NotifyCurrentServerStatus_def)
next
  case (Some m)
  let ?rate = "if GlobalRate_Rate env = 0 then 1 else GlobalRate_Rate env"
  let ?server = "\<lparr>HostName = Hostname (hostDetails gw), ID = GetNodeID gw,
                  LoadPerSec = ?rate, TagHash = getTagHash gw\<rparr>"
  show ?thesis
  proof (cases "Ready m")
    case False
    then show ?thesis using Some by (simp add: NotifyCurrentServerStatus_def)
  next
    case True
    show ?thesis
    proof (cases "Marshal_Server env ?server")
      case (Inl e)
      then show ?thesis using Some True by (simp add: NotifyCurrentServerStatus_def Let_def)
    next
      case (Inr asJson)
      have "NotifyCurrentServerStatus env gw w =
        w\<lparr>effects := effects w @ [NotifyEff NoticeGatewayDRLNotification asJson]\<rparr>"
        using Some True Inr by (simp add: NotifyCurrentServerStatus_def Let_def)
      moreover have "(GlobalRate_Rate env = 0 \<longrightarrow> LoadPerSec ?server = 1) \<and>
          (0 < sint (GlobalRate_Rate env) \<longrightarrow> LoadPerSec ?server = GlobalRate_Rate env) \<and>
          LoadPerSec ?server \<noteq> 0"
        by auto
      ultimately show ?thesis
        using Some True Inr
        by (intro disjI2 exI [of _ m] exI [of _ ?server] exI [of _ asJson]) simp
    qed
  qed
qed

theorem C7_witness:
  "GlobalRate_Rate sample_sync_env = 0 \<and>
   NotifyCurrentServerStatus sample_sync_env sample_gateway sample_world =
     sample_world\<lparr>effects := [NotifyEff NoticeGatewayDRLNotification ''node-7|h1|1|euedge'']\<rparr> \<and>
   0 < sint (GlobalRate_Rate (sample_sync_env\<lparr>GlobalRate_Rate := 5\<rparr>)) \<and>
   NotifyCurrentServerStatus (sample_sync_env\<lparr>GlobalRate_Rate := 5\<rparr>) sample_gateway sample_world =
     sample_world\<lparr>effects := [NotifyEff NoticeGatewayDRLNotification ''node-7|h1|5|euedge'']\<rparr> \<and>
   (\<exists>m server asJson.
      DRLManager sample_gateway = Some m \<and> Ready m \<and>
      NotifyCurrentServerStatus sample_sync_env sample_gateway sample_world =
        sample_world\<lparr>effects := effects sample_world @
          [NotifyEff NoticeGatewayDRLNotification asJson]\<rparr> \<and>
      Marshal_Server sample_sync_env server = Inr asJson \<and>
      LoadPerSec server = 1)"
proof -
  have r0: "GlobalRate_Rate sample_sync_env = 0" by (simp add: sample_sync_env_def)
  have r5: "0 < sint (GlobalRate_Rate (sample_sync_env\<lparr>GlobalRate_Rate := 5\<rparr>))" by simp
  have e0: "NotifyCurrentServerStatus sample_sync_env sample_gateway sample_world =
     sample_world\<lparr>effects := [NotifyEff NoticeGatewayDRLNotification ''node-7|h1|1|euedge'']\<rparr>"
    by (simp add: NotifyCurrentServerStatus_def sample_sync_env_def sample_gateway_def
        sample_config_def sample_world_def getTagHash_def digits_samples Let_def)
  have e5: "NotifyCurrentServerStatus (sample_sync_env\<lparr>GlobalRate_Rate := 5\<rparr>) sample_gateway
      sample_world =
     sample_world\<lparr>effects := [NotifyEff NoticeGatewayDRLNotification ''node-7|h1|5|euedge'']\<rparr>"
    by (simp add: NotifyCurrentServerStatus_def sample_sync_env_def sample_gateway_def
        sample_config_def sample_world_def getTagHash_def digits_samples Let_def)
  have "effects (NotifyCurrentServerStatus sample_sync_env sample_gateway sample_world) \<noteq>
      effects sample_world"
    unfolding e0 by (simp add: sample_world_def)
  then have ne: "NotifyCurrentServerStatus sample_sync_env sample_gateway sample_world \<noteq> sample_world"
    by auto
  from C7_load_report [of sample_sync_env sample_gateway sample_world] ne r0
  have "\<exists>m server asJson.
      DRLManager sample_gateway = Some m \<and> Ready m \<and>
      NotifyCurrentServerStatus sample_sync_env sample_gateway sample_world =
        sample_world\<lparr>effects := effects sample_world @
          [NotifyEff NoticeGatewayDRLNotification asJson]\<rparr> \<and>
      Marshal_Server sample_sync_env server = Inr asJson \<and>
      LoadPerSec server = 1"
    by blast
  with r0 r5 e0 e5 show ?thesis by blast
qed

end
